theory Spec2Isabelle
  imports Main
begin

section \<open>The recording state machine (state-machine.ts)\<close>

text \<open>
  The five states and six triggers of the source, as datatypes.  The state \<open>'error'\<close>
  and the trigger \<open>'error'\<close> share a name in the source; here they are \<open>ErrorState\<close> and
  \<open>Error_trigger\<close>.
\<close>

datatype RecordingState = Idle | Recording | Processing | Inserting | ErrorState

datatype StateTrigger =
    Hotkey_press
  | Hotkey_release
  | Transcription_complete
  | Insertion_complete
  | Error_trigger
  | Reset_trigger

text \<open>
  \<open>VALID_TRANSITIONS\<close>: the nested record of the source, read as a partial function.
  A pair with no entry is \<open>None\<close> (the source reads \<open>undefined\<close>).
\<close>

fun VALID_TRANSITIONS :: "RecordingState \<Rightarrow> StateTrigger \<Rightarrow> RecordingState option" where
  "VALID_TRANSITIONS Idle Hotkey_press = Some Recording"
| "VALID_TRANSITIONS Recording Hotkey_release = Some Processing"
| "VALID_TRANSITIONS Recording Error_trigger = Some Idle"
| "VALID_TRANSITIONS Processing Transcription_complete = Some Inserting"
| "VALID_TRANSITIONS Processing Error_trigger = Some Idle"
| "VALID_TRANSITIONS Inserting Insertion_complete = Some Idle"
| "VALID_TRANSITIONS Inserting Error_trigger = Some Idle"
| "VALID_TRANSITIONS ErrorState Reset_trigger = Some Idle"
| "VALID_TRANSITIONS _ _ = None"

text \<open>
  The fields of \<open>RecordingStateMachine\<close>.  Times are milliseconds since the epoch, as
  \<open>Date.now()\<close> returns them; \<open>null\<close> is \<open>None\<close>.
\<close>

record machine =
  currentState :: RecordingState
  recordingStartTime :: "int option"
  minRecordingDuration :: int

text \<open>A \<open>stateChange\<close> event: the new state first, the previous state second.\<close>

type_synonym stateChange = "RecordingState \<times> RecordingState"

text \<open>The constructor, with its default argument of 200 ms.\<close>

definition new_machine :: "int option \<Rightarrow> machine" where
  "new_machine minDuration =
     \<lparr> currentState = Idle,
       recordingStartTime = None,
       minRecordingDuration = (case minDuration of None \<Rightarrow> 200 | Some d \<Rightarrow> d) \<rparr>"

text \<open>
  \<open>getRecordingDuration\<close>.  The test \<open>!this._recordingStartTime\<close> is true for \<open>null\<close> and
  for the number 0.  The argument \<open>now\<close> is the value \<open>Date.now()\<close> returns in the call.
\<close>

definition getRecordingDuration :: "int \<Rightarrow> machine \<Rightarrow> int" where
  "getRecordingDuration now m =
     (case recordingStartTime m of
        None \<Rightarrow> 0
      | Some t \<Rightarrow> if t = 0 then 0 else now - t)"

text \<open>
  \<open>transition\<close> returns the boolean of the source, the machine after the call and the
  \<open>stateChange\<close> events emitted, in order.  Every field is written before the event is
  emitted, so a listener sees the machine that is returned here.  At most one of the two
  reads of the clock happens in a call (the press branch writes it, the release branch
  reads it through \<open>getRecordingDuration\<close>), so one \<open>now\<close> serves both.
\<close>

definition transition ::
  "int \<Rightarrow> StateTrigger \<Rightarrow> machine \<Rightarrow> bool \<times> machine \<times> stateChange list" where
  "transition now trigger m =
     (case VALID_TRANSITIONS (currentState m) trigger of
        None \<Rightarrow> (False, m, [])
      | Some nextState \<Rightarrow>
          (let m1 = (if trigger = Hotkey_press \<and> nextState = Recording
                     then m\<lparr>recordingStartTime := Some now\<rparr> else m)
           in if trigger = Hotkey_release \<and> currentState m1 = Recording
                 \<and> getRecordingDuration now m1 < minRecordingDuration m1
              then (False,
                    m1\<lparr>currentState := Idle, recordingStartTime := None\<rparr>,
                    [(Idle, currentState m1)])
              else
                (let previousState = currentState m1;
                     m2 = m1\<lparr>currentState := nextState\<rparr>;
                     m3 = (if nextState = Idle then m2\<lparr>recordingStartTime := None\<rparr> else m2)
                 in (True, m3, [(nextState, previousState)]))))"

text \<open>\<open>reset\<close>: the machine after the call and the events emitted.\<close>

definition reset :: "machine \<Rightarrow> machine \<times> stateChange list" where
  "reset m =
     (let previousState = currentState m;
          m1 = m\<lparr>currentState := Idle, recordingStartTime := None\<rparr>
      in (m1, if previousState \<noteq> Idle then [(Idle, previousState)] else []))"

text \<open>\<open>canTransition\<close>: the lookup alone.\<close>

definition canTransition :: "StateTrigger \<Rightarrow> machine \<Rightarrow> bool" where
  "canTransition trigger m = (VALID_TRANSITIONS (currentState m) trigger \<noteq> None)"

text \<open>
  A call made on the machine from outside: \<open>transition\<close> at some reading of the clock, or
  \<open>reset\<close>.  \<open>run\<close> replays a finite sequence of calls, oldest first.
\<close>

datatype call = Transition int StateTrigger | Reset

fun apply_call :: "call \<Rightarrow> machine \<Rightarrow> machine" where
  "apply_call (Transition now trigger) m = fst (snd (transition now trigger m))"
| "apply_call Reset m = fst (reset m)"

fun run :: "call list \<Rightarrow> machine \<Rightarrow> machine" where
  "run [] m = m"
| "run (c # cs) m = run cs (apply_call c m)"

text \<open>
  When the recording under way began, read off the calls alone: the reading of the clock
  at the latest \<open>hotkey_press\<close> submitted while the machine was in \<open>idle\<close> (the press
  that enters \<open>recording\<close>).  The first argument is the value before the calls.
\<close>

fun recording_began :: "int option \<Rightarrow> call list \<Rightarrow> machine \<Rightarrow> int option" where
  "recording_began began [] m = began"
| "recording_began began (Transition now Hotkey_press # cs) m =
     recording_began (if currentState m = Idle then Some now else began) cs
       (apply_call (Transition now Hotkey_press) m)"
| "recording_began began (c # cs) m = recording_began began cs (apply_call c m)"

text \<open>
  The session invariant: the start time is absent in \<open>idle\<close>, and the machine is never in
  \<open>error\<close>.
\<close>

definition session_inv :: "machine \<Rightarrow> bool" where
  "session_inv m \<longleftrightarrow>
     currentState m \<noteq> ErrorState \<and>
     (currentState m = Idle \<longrightarrow> recordingStartTime m = None) \<and>
     (currentState m \<noteq> Idle \<longrightarrow> recordingStartTime m \<noteq> None)"

text \<open>The machine of a fresh session, the hotkey pressed at time \<open>t\<close>.\<close>

definition pressed_at :: "int \<Rightarrow> machine" where
  "pressed_at t = apply_call (Transition t Hotkey_press) (new_machine None)"

section \<open>The status widgets (recording-widget.ts)\<close>

datatype WidgetState = W_idle | W_recording | W_processing | W_success | W_error

text \<open>
  \<open>RecordingWidget\<close>: the map from display id to window is an association list whose
  second component says whether the window \<open>isDestroyed()\<close>; \<open>widget_currentState\<close> is
  the field \<open>currentState\<close> of the class.  \<open>sent\<close> is the log of the
  \<open>'widget-state-update'\<close> messages sent, oldest first, each with the display id of the
  window that received it.
\<close>

record RecordingWidget =
  widgets :: "(nat \<times> bool) list"
  widget_currentState :: WidgetState
  sent :: "(nat \<times> WidgetState) list"

text \<open>The windows of the map that are not destroyed.\<close>

definition live_widgets :: "RecordingWidget \<Rightarrow> (nat \<times> bool) list" where
  "live_widgets w = filter (\<lambda>win. \<not> snd win) (widgets w)"

text \<open>
  \<open>updateAllWidgets\<close>: the loop deletes every destroyed window from the map and sends the
  status to each of the others.
\<close>

definition updateAllWidgets :: "WidgetState \<Rightarrow> RecordingWidget \<Rightarrow> RecordingWidget" where
  "updateAllWidgets state w =
     w\<lparr> widget_currentState := state,
        widgets := live_widgets w,
        sent := sent w @ map (\<lambda>win. (fst win, state)) (live_widgets w) \<rparr>"

section \<open>The orchestrator (orchestrator.ts)\<close>

text \<open>
  What \<open>isRendererReady\<close> reads of the main window: whether the window is destroyed,
  whether it has a \<open>webContents\<close>, whether that is destroyed, whether the page is loading.
\<close>

record BrowserWindow =
  window_isDestroyed :: bool
  has_webContents :: bool
  webContents_isDestroyed :: bool
  webContents_isLoading :: bool

text \<open>
  Calls the orchestrator makes on its collaborators, logged in order:
  \<open>captureActiveApp()\<close>, \<open>insert(text)\<close> and \<open>copyToClipboardOnly(text)\<close> of the text
  insertion service, and \<open>mainWindow.webContents.send(channel)\<close>.
\<close>

datatype effect =
    CaptureActiveApp
  | Insert string
  | CopyToClipboardOnly string
  | Send string

datatype insertion_method = Paste | Clipboard_only

text \<open>
  The function a timer runs when it fires: the two nested timers of the processing
  watchdog, the feedback timer of the completion handler, the deferred timer of the
  transcription-error handler.
\<close>

datatype timer_callback =
    Watchdog_first
  | Watchdog_second
  | Feedback_insertion
  | Deferred_error

text \<open>A pending timer: its handle, its delay in milliseconds, its callback.\<close>

type_synonym timer = "nat \<times> nat \<times> timer_callback"

text \<open>
  The state the orchestrator works on: its own fields (\<open>mainWindow\<close>, \<open>isRecording\<close>,
  \<open>processingTimeout\<close>, \<open>feedbackTimeout\<close>), the singletons it reaches through
  \<open>getStateMachine()\<close> and \<open>getRecordingWidget()\<close>, the configured insertion method, the
  pending timers of the event loop with the next free handle, and the log of calls on
  collaborators.
\<close>

record orchestrator =
  stateMachine :: machine
  widget :: RecordingWidget
  mainWindow :: "BrowserWindow option"
  isRecording :: bool
  processingTimeout :: "nat option"
  feedbackTimeout :: "nat option"
  timers :: "timer list"
  nextTimerId :: nat
  insertionMethod :: insertion_method
  effects :: "effect list"

definition PROCESSING_TIMEOUT_MS :: nat where
  "PROCESSING_TIMEOUT_MS = 30000"

text \<open>\<open>setTimeout\<close> returns the new handle; \<open>clearTimeout\<close> drops the pending timer.\<close>

definition setTimeout :: "timer_callback \<Rightarrow> nat \<Rightarrow> orchestrator \<Rightarrow> nat \<times> orchestrator" where
  "setTimeout callback delay orc =
     (nextTimerId orc,
      orc\<lparr> timers := timers orc @ [(nextTimerId orc, delay, callback)],
           nextTimerId := Suc (nextTimerId orc) \<rparr>)"

definition clearTimeout :: "nat \<Rightarrow> orchestrator \<Rightarrow> orchestrator" where
  "clearTimeout handle orc = orc\<lparr> timers := filter (\<lambda>t. fst t \<noteq> handle) (timers orc) \<rparr>"

definition clearProcessingTimeout :: "orchestrator \<Rightarrow> orchestrator" where
  "clearProcessingTimeout orc =
     (let o1 = (case processingTimeout orc of
                  None \<Rightarrow> orc
                | Some h \<Rightarrow> (clearTimeout h orc)\<lparr>processingTimeout := None\<rparr>);
          o2 = (case feedbackTimeout o1 of
                  None \<Rightarrow> o1
                | Some h \<Rightarrow> (clearTimeout h o1)\<lparr>feedbackTimeout := None\<rparr>)
      in o2)"

text \<open>A call of \<open>widget.updateAllWidgets(state)\<close>: a push to the widgets.\<close>

definition push :: "WidgetState \<Rightarrow> orchestrator \<Rightarrow> orchestrator" where
  "push state orc = orc\<lparr> widget := updateAllWidgets state (widget orc) \<rparr>"

definition call_out :: "effect \<Rightarrow> orchestrator \<Rightarrow> orchestrator" where
  "call_out e orc = orc\<lparr> effects := effects orc @ [e] \<rparr>"

definition isRendererReady :: "orchestrator \<Rightarrow> bool" where
  "isRendererReady orc =
     (case mainWindow orc of
        None \<Rightarrow> False
      | Some win \<Rightarrow>
          if window_isDestroyed win then False
          else if \<not> has_webContents win \<or> webContents_isDestroyed win then False
          else if webContents_isLoading win then False
          else True)"

definition stopRecordingInRenderer :: "orchestrator \<Rightarrow> orchestrator" where
  "stopRecordingInRenderer orc =
     (if isRendererReady orc then call_out (Send ''stop-recording'') orc else orc)"

definition resetRendererRecordingState :: "orchestrator \<Rightarrow> orchestrator" where
  "resetRendererRecordingState orc =
     (if isRendererReady orc then call_out (Send ''reset-recording-state'') orc else orc)"

text \<open>The \<open>'idle'\<close> case of the \<open>stateChange\<close> listener.\<close>

definition on_idle :: "RecordingState \<Rightarrow> orchestrator \<Rightarrow> orchestrator" where
  "on_idle previousState orc =
     (let o1 = clearProcessingTimeout orc;
          o2 = o1\<lparr>isRecording := False\<rparr>;
          o3 = (if previousState \<noteq> Idle then resetRendererRecordingState o2 else o2);
          o4 = (if previousState \<noteq> Inserting \<and> previousState \<noteq> Processing
                then push W_idle o3 else o3)
      in o4)"

text \<open>
  \<open>stateMachine.reset()\<close> with the orchestrator's listener attached.  \<open>reset\<close> emits
  only events whose new state is \<open>idle\<close>, so the listener runs its \<open>'idle'\<close> case.
\<close>

definition stateMachine_reset :: "orchestrator \<Rightarrow> orchestrator" where
  "stateMachine_reset orc =
     (case reset (stateMachine orc) of
        (m, events) \<Rightarrow> fold (\<lambda>ev. on_idle (snd ev)) events (orc\<lparr>stateMachine := m\<rparr>))"

text \<open>
  \<open>startRecordingInRenderer\<close> resets the machine when the renderer is not ready; this
  happens inside the listener, that is inside the \<open>emit\<close> of \<open>transition\<close>.
\<close>

definition startRecordingInRenderer :: "orchestrator \<Rightarrow> orchestrator" where
  "startRecordingInRenderer orc =
     (if isRendererReady orc then call_out (Send ''start-recording'') orc
      else stateMachine_reset orc)"

text \<open>The \<open>stateChange\<close> listener of \<open>setupStateMachineListeners\<close>.\<close>

definition stateChange_listener :: "stateChange \<Rightarrow> orchestrator \<Rightarrow> orchestrator" where
  "stateChange_listener ev orc =
     (case ev of (state, previousState) \<Rightarrow>
        (case state of
           Recording \<Rightarrow> startRecordingInRenderer (push W_recording orc)
         | Processing \<Rightarrow>
             (let o1 = push W_processing orc;
                  o2 = stopRecordingInRenderer o1;
                  o3 = clearProcessingTimeout o2
              in case setTimeout Watchdog_first PROCESSING_TIMEOUT_MS o3 of
                   (h, o4) \<Rightarrow> o4\<lparr>processingTimeout := Some h\<rparr>)
         | Inserting \<Rightarrow> clearProcessingTimeout orc
         | Idle \<Rightarrow> on_idle previousState orc
         | ErrorState \<Rightarrow> push W_error (clearProcessingTimeout orc)))"

text \<open>
  \<open>stateMachine.transition(trigger)\<close> with the listener attached: the machine is
  updated, then the listener runs on each event emitted.
\<close>

definition stateMachine_transition ::
  "int \<Rightarrow> StateTrigger \<Rightarrow> orchestrator \<Rightarrow> bool \<times> orchestrator" where
  "stateMachine_transition now trigger orc =
     (case transition now trigger (stateMachine orc) of
        (ok, m, events) \<Rightarrow> (ok, fold stateChange_listener events (orc\<lparr>stateMachine := m\<rparr>)))"

text \<open>The body of each timer callback.\<close>

fun timer_fired :: "int \<Rightarrow> timer_callback \<Rightarrow> orchestrator \<Rightarrow> orchestrator" where
  "timer_fired now Watchdog_first orc =
     (if currentState (stateMachine orc) = Processing then
        (case setTimeout Watchdog_second 3000 (push W_error orc) of
           (h, o2) \<Rightarrow> o2\<lparr>feedbackTimeout := Some h\<rparr>)
      else orc)"
| "timer_fired now Watchdog_second orc =
     (if currentState (stateMachine orc) = Processing then
        snd (stateMachine_transition now Error_trigger (push W_idle orc))
      else orc)"
| "timer_fired now Feedback_insertion orc =
     (if currentState (stateMachine orc) = Inserting then
        snd (stateMachine_transition now Insertion_complete (push W_idle orc))
      else orc)"
| "timer_fired now Deferred_error orc =
     (if currentState (stateMachine orc) = Processing then
        snd (stateMachine_transition now Error_trigger (push W_idle orc))
      else orc)"

text \<open>
  The event loop fires the timer with the given handle: nothing happens when it is not
  pending (it was cleared, or it has fired); otherwise it leaves the pending list and its
  callback runs.
\<close>

definition fire_timer :: "int \<Rightarrow> nat \<Rightarrow> orchestrator \<Rightarrow> orchestrator" where
  "fire_timer now handle orc =
     (case find (\<lambda>t. fst t = handle) (timers orc) of
        None \<Rightarrow> orc
      | Some t \<Rightarrow> timer_fired now (snd (snd t)) (clearTimeout handle orc))"

text \<open>
  The handlers below are \<open>async\<close>.  At an \<open>await\<close> the event loop may run other
  handlers and timers before the handler resumes; the argument \<open>others\<close> is what they do
  to the state in that time (the identity when nothing else runs).

  The \<open>onPress\<close> callback of \<open>setupHotkeyListeners\<close> (the hardware hotkey); \<open>now\<close> is
  the reading of the clock when \<open>transition\<close> is called.
\<close>

definition on_hotkey_press ::
  "(orchestrator \<Rightarrow> orchestrator) \<Rightarrow> int \<Rightarrow> orchestrator \<Rightarrow> orchestrator" where
  "on_hotkey_press others now orc =
     (if currentState (stateMachine orc) = Idle then
        (let o1 = others (call_out CaptureActiveApp orc);
             o2 = snd (stateMachine_transition now Hotkey_press o1)
         in o2\<lparr>isRecording := True\<rparr>)
      else if currentState (stateMachine orc) = Recording then
        (snd (stateMachine_transition now Hotkey_release orc))\<lparr>isRecording := False\<rparr>
      else if currentState (stateMachine orc) = ErrorState then
        (let o0 = stateMachine_reset orc;
             o1 = others (call_out CaptureActiveApp o0);
             o2 = snd (stateMachine_transition now Hotkey_press o1)
         in o2\<lparr>isRecording := True\<rparr>)
      else orc)"

text \<open>The \<open>'widget-toggle-recording'\<close> handler of \<open>setupIpcHandlers\<close>.\<close>

definition on_widget_toggle ::
  "(orchestrator \<Rightarrow> orchestrator) \<Rightarrow> int \<Rightarrow> orchestrator \<Rightarrow> orchestrator" where
  "on_widget_toggle others now orc =
     (if currentState (stateMachine orc) = Idle then
        (let o1 = others (call_out CaptureActiveApp orc);
             o2 = snd (stateMachine_transition now Hotkey_press o1)
         in o2\<lparr>isRecording := True\<rparr>)
      else if currentState (stateMachine orc) = Recording then
        (snd (stateMachine_transition now Hotkey_release orc))\<lparr>isRecording := False\<rparr>
      else orc)"

text \<open>
  The \<open>'transcription-complete'\<close> handler, in the two parts the \<open>await\<close> of
  \<open>insert(text)\<close> separates.  \<open>deliver\<close> runs up to the call of the insertion service;
  \<open>feedback\<close> runs once its result is there, \<open>success\<close> being \<open>result.success\<close>.  Only
  the paste branch awaits.
\<close>

definition deliver :: "int \<Rightarrow> string \<Rightarrow> orchestrator \<Rightarrow> orchestrator" where
  "deliver now text orc =
     (let o1 = snd (stateMachine_transition now Transcription_complete orc)
      in if insertionMethod o1 = Clipboard_only
         then call_out (CopyToClipboardOnly text) o1
         else call_out (Insert text) o1)"

definition feedback :: "bool \<Rightarrow> orchestrator \<Rightarrow> orchestrator" where
  "feedback success orc =
     (let o1 = (if success then push W_success orc else push W_error orc)
      in case setTimeout Feedback_insertion 2000 o1 of
           (h, o2) \<Rightarrow> o2\<lparr>feedbackTimeout := Some h\<rparr>)"

definition on_transcription_complete ::
  "(orchestrator \<Rightarrow> orchestrator) \<Rightarrow> bool \<Rightarrow> int \<Rightarrow> string \<Rightarrow> orchestrator \<Rightarrow> orchestrator" where
  "on_transcription_complete others success now text orc =
     (if currentState (stateMachine orc) = Processing then
        (let o1 = deliver now text orc;
             o2 = (if insertionMethod o1 = Clipboard_only then o1 else others o1)
         in feedback success o2)
      else orc)"

text \<open>The \<open>'transcription-error'\<close> handler.\<close>

definition on_transcription_error :: "orchestrator \<Rightarrow> orchestrator" where
  "on_transcription_error orc =
     (case setTimeout Deferred_error 3000 (push W_error orc) of
        (h, o2) \<Rightarrow> o2\<lparr>feedbackTimeout := Some h\<rparr>)"

text \<open>
  The orchestrator as constructed over a fresh machine: no window attached, nothing
  pending, nothing logged.
\<close>

definition new_orchestrator :: "(nat \<times> bool) list \<Rightarrow> insertion_method \<Rightarrow> orchestrator" where
  "new_orchestrator displays method =
     \<lparr> stateMachine = new_machine None,
       widget = \<lparr> widgets = displays, widget_currentState = W_idle, sent = [] \<rparr>,
       mainWindow = None,
       isRecording = False,
       processingTimeout = None,
       feedbackTimeout = None,
       timers = [],
       nextTimerId = 0,
       insertionMethod = method,
       effects = [] \<rparr>"

text \<open>
  Configurations used as examples.  \<open>started\<close>: the orchestrator with a renderer that is
  ready and three displays, the window of the second destroyed.  \<open>session_recording\<close>:
  the hotkey pressed at 1000, so the machine is in \<open>recording\<close>.
  \<open>session_processing\<close>: the hotkey pressed at 1000 and again at 1500 (toggle to
  stop), so the machine is in \<open>processing\<close> with the watchdog pending.  \<open>error_reported\<close>: a transcription error
  arrives then.  \<open>late_completion\<close>: a completion arrives after that error, before the
  deferred timer fires.  \<open>watchdog_fired\<close>: instead, the first watchdog timer fires.
  \<open>stuck_in_error\<close>: the machine replaced by one whose state reads \<open>error\<close>, as the
  repository's test of the widget toggle does with its mock machine.
\<close>

definition ready_window :: BrowserWindow where
  "ready_window = \<lparr> window_isDestroyed = False, has_webContents = True,
                     webContents_isDestroyed = False, webContents_isLoading = False \<rparr>"

definition started :: orchestrator where
  "started =
     (new_orchestrator [(1, False), (2, True), (3, False)] Paste)
       \<lparr> mainWindow := Some ready_window \<rparr>"

definition session_recording :: orchestrator where
  "session_recording = on_hotkey_press id 1000 started"

definition session_processing :: orchestrator where
  "session_processing = on_hotkey_press id 1500 (on_hotkey_press id 1000 started)"

definition error_reported :: orchestrator where
  "error_reported = on_transcription_error session_processing"

definition late_completion :: orchestrator where
  "late_completion = on_transcription_complete id True 1800 ''hello'' error_reported"

definition watchdog_fired :: orchestrator where
  "watchdog_fired = fire_timer 31500 0 session_processing"

definition stuck_in_error :: orchestrator where
  "stuck_in_error =
     started\<lparr> stateMachine := (new_machine None)\<lparr> currentState := ErrorState \<rparr> \<rparr>"

section \<open>The hotkey service (hotkey-service.ts)\<close>

text \<open>
  A JavaScript string is the list of its UTF-16 code units; \<open>utf16\<close> writes one from an
  ASCII literal.
\<close>

type_synonym js_string = "nat list"

definition utf16 :: "string \<Rightarrow> js_string" where
  "utf16 s = map of_char s"

record HotkeyConfig =
  accelerator :: js_string
  enabled :: bool

definition DEFAULT_HOTKEY :: HotkeyConfig where
  "DEFAULT_HOTKEY = \<lparr> accelerator = utf16 ''Fn'', enabled = True \<rparr>"

text \<open>\<open>Partial<HotkeyConfig>\<close>: each field given or left out.\<close>

record HotkeyConfig_partial =
  new_accelerator :: "js_string option"
  new_enabled :: "bool option"

text \<open>
  What a call of the operating system's registration does: \<open>globalShortcut.register\<close>
  returns true, returns false, or throws; on the Fn path \<open>Threw\<close> stands for the
  constructor of the keyboard listener throwing, and the other two for its success.
\<close>

datatype register_outcome = Registered | Refused | Threw

datatype hotkey_event = Press_event | Release_event | Error_event

text \<open>How a call ends: it returns a value, or an exception leaves it.\<close>

datatype 'a completion = Returns 'a | Throws

text \<open>
  The fields of \<open>GlobalHotkeyService\<close> (\<open>keyspy\<close> holds the handle of the keyboard
  listener instance, \<open>keyspyListener\<close> says whether \<open>_keyspyListener\<close> is set); of the
  \<open>EventEmitter\<close> it extends, the number of listeners attached for \<open>'error'\<close> and the
  events handed to listeners; the hotkey held by the configuration store; and the part
  of the operating system it acts on: the accelerators registered with
  \<open>globalShortcut\<close>, and the keyboard listener instances alive, each with whether a
  listener is attached to it.
\<close>

record GlobalHotkeyService =
  config :: HotkeyConfig
  isRegistered :: bool
  keyspy :: "nat option"
  keyspyListener :: bool
  fnPressed :: bool
  error_listeners :: nat
  emitted :: "hotkey_event list"
  stored_hotkey :: "HotkeyConfig option"
  os_globalShortcuts :: "js_string list"
  os_keyspies :: "(nat \<times> bool) list"
  os_nextInstance :: nat

text \<open>The constructor.  Nothing in the repository attaches an \<open>'error'\<close> listener.\<close>

definition new_hotkey_service :: "HotkeyConfig option \<Rightarrow> GlobalHotkeyService" where
  "new_hotkey_service cfg =
     \<lparr> config = (case cfg of None \<Rightarrow> DEFAULT_HOTKEY | Some c \<Rightarrow> c),
       isRegistered = False,
       keyspy = None,
       keyspyListener = False,
       fnPressed = False,
       error_listeners = 0,
       emitted = [],
       stored_hotkey = None,
       os_globalShortcuts = [],
       os_keyspies = [],
       os_nextInstance = 0 \<rparr>"

text \<open>\<open>on('error', listener)\<close> of the \<open>EventEmitter\<close>.\<close>

definition on_error :: "GlobalHotkeyService \<Rightarrow> GlobalHotkeyService" where
  "on_error s = s\<lparr> error_listeners := Suc (error_listeners s) \<rparr>"

text \<open>
  The bindings that are live: every accelerator registered with \<open>globalShortcut\<close>, and
  every keyboard listener instance alive with a listener attached.
\<close>

definition live_bindings :: "GlobalHotkeyService \<Rightarrow> nat" where
  "live_bindings s = length (os_globalShortcuts s) + length (filter snd (os_keyspies s))"

text \<open>
  \<open>isFnAccelerator\<close>: \<open>accelerator.trim().toLowerCase() === 'fn'\<close>.  \<open>trim\<close> strips
  the white space and the line terminators of ECMAScript: U+0009 to U+000D, U+0020,
  U+00A0, U+1680, U+2000 to U+200A, U+2028, U+2029, U+202F, U+205F, U+3000, U+FEFF.  Of
  \<open>toLowerCase\<close> only the letters A to Z are modelled; F and N are the only code points
  whose lower case is f or n, so the comparison with \<open>'fn'\<close> comes out as in the source.
\<close>

definition is_white_space :: "nat \<Rightarrow> bool" where
  "is_white_space u \<longleftrightarrow>
     (9 \<le> u \<and> u \<le> 13) \<or> u = 32 \<or> u = 160 \<or> u = 5760 \<or> (8192 \<le> u \<and> u \<le> 8202)
     \<or> u = 8232 \<or> u = 8233 \<or> u = 8239 \<or> u = 8287 \<or> u = 12288 \<or> u = 65279"

definition trim :: "js_string \<Rightarrow> js_string" where
  "trim s = rev (dropWhile is_white_space (rev (dropWhile is_white_space s)))"

definition toLowerCase :: "js_string \<Rightarrow> js_string" where
  "toLowerCase s = map (\<lambda>u. if 65 \<le> u \<and> u \<le> 90 then u + 32 else u) s"

definition isFnAccelerator :: "js_string \<Rightarrow> bool" where
  "isFnAccelerator a \<longleftrightarrow> toLowerCase (trim a) = utf16 ''fn''"

text \<open>
  \<open>this.emit('error', error)\<close>: with no \<open>'error'\<close> listener attached the
  \<open>EventEmitter\<close> throws the error; otherwise the listeners get it.  The boolean says
  whether the call threw.
\<close>

definition emit_error :: "GlobalHotkeyService \<Rightarrow> bool \<times> GlobalHotkeyService" where
  "emit_error s =
     (if error_listeners s = 0 then (True, s)
      else (False, s\<lparr> emitted := emitted s @ [Error_event] \<rparr>))"

text \<open>The calls on the keyboard listener instance and on \<open>globalShortcut\<close>.\<close>

definition keyspy_removeListener :: "nat \<Rightarrow> GlobalHotkeyService \<Rightarrow> GlobalHotkeyService" where
  "keyspy_removeListener k s =
     s\<lparr> os_keyspies := map (\<lambda>i. if fst i = k then (k, False) else i) (os_keyspies s) \<rparr>"

definition keyspy_kill :: "nat \<Rightarrow> GlobalHotkeyService \<Rightarrow> GlobalHotkeyService" where
  "keyspy_kill k s = s\<lparr> os_keyspies := filter (\<lambda>i. fst i \<noteq> k) (os_keyspies s) \<rparr>"

definition globalShortcut_unregister ::
  "js_string \<Rightarrow> GlobalHotkeyService \<Rightarrow> GlobalHotkeyService" where
  "globalShortcut_unregister a s =
     s\<lparr> os_globalShortcuts := filter (\<lambda>b. b \<noteq> a) (os_globalShortcuts s) \<rparr>"

text \<open>
  \<open>unregister\<close>.  The tear-down is chosen by the accelerator of the configuration held
  at the time of the call.
\<close>

definition unregister :: "GlobalHotkeyService \<Rightarrow> GlobalHotkeyService" where
  "unregister s =
     (let s1 =
        (if isRegistered s \<and> accelerator (config s) \<noteq> [] then
           (if isFnAccelerator (accelerator (config s)) then
              (let s2 = (case keyspy s of
                           None \<Rightarrow> s
                         | Some k \<Rightarrow> if keyspyListener s then keyspy_removeListener k s else s);
                   s3 = (case keyspy s2 of
                           None \<Rightarrow> s2
                         | Some k \<Rightarrow> keyspy_kill k s2)
               in s3\<lparr> keyspy := None, keyspyListener := False, fnPressed := False \<rparr>)
            else globalShortcut_unregister (accelerator (config s)) s)
         else s)
      in s1\<lparr> isRegistered := False \<rparr>)"

text \<open>
  \<open>registerFnHotkey\<close>: the boolean says whether the call threw.  An instance still held
  is killed first; the new instance gets its listener attached.
\<close>

definition registerFnHotkey ::
  "register_outcome \<Rightarrow> GlobalHotkeyService \<Rightarrow> bool \<times> GlobalHotkeyService" where
  "registerFnHotkey outcome s =
     (let s1 = (case keyspy s of None \<Rightarrow> s | Some k \<Rightarrow> keyspy_kill k s)
      in if outcome = Threw then (True, s1)
         else
           (False,
            s1\<lparr> keyspy := Some (os_nextInstance s1),
                fnPressed := False,
                keyspyListener := True,
                os_keyspies := os_keyspies s1 @ [(os_nextInstance s1, True)],
                os_nextInstance := Suc (os_nextInstance s1) \<rparr>))"

text \<open>
  The \<open>try\<close> block of \<open>register\<close>: it returns true or false, or an exception leaves it,
  thrown by the registration or by the \<open>emit('error', ...)\<close> of the refused branch.
\<close>

definition register_try ::
  "register_outcome \<Rightarrow> GlobalHotkeyService \<Rightarrow> bool completion \<times> GlobalHotkeyService" where
  "register_try outcome s1 =
     (if isFnAccelerator (accelerator (config s1)) then
        (case registerFnHotkey outcome s1 of
           (threw, s2) \<Rightarrow>
             if threw then (Throws, s2)
             else (Returns True, s2\<lparr> isRegistered := True \<rparr>))
      else
        (case outcome of
           Registered \<Rightarrow>
             (Returns True,
              s1\<lparr> os_globalShortcuts := os_globalShortcuts s1 @ [accelerator (config s1)],
                  isRegistered := True \<rparr>)
         | Refused \<Rightarrow>
             (case emit_error s1 of
                (threw, s2) \<Rightarrow> if threw then (Throws, s2) else (Returns False, s2))
         | Threw \<Rightarrow> (Throws, s1)))"

text \<open>
  \<open>register\<close>: how the call ends and the state after it.  The \<open>catch\<close> block emits
  \<open>'error'\<close> itself, which throws out of \<open>register\<close> when no listener is attached.
\<close>

definition register ::
  "HotkeyConfig option \<Rightarrow> register_outcome \<Rightarrow> GlobalHotkeyService
     \<Rightarrow> bool completion \<times> GlobalHotkeyService" where
  "register cfg outcome s =
     (let s0 = (case cfg of None \<Rightarrow> s | Some c \<Rightarrow> s\<lparr> config := c \<rparr>)
      in if \<not> enabled (config s0) then (Returns False, s0)
         else
           (let s1 = unregister s0
            in case register_try outcome s1 of
                 (Returns b, s2) \<Rightarrow> (Returns b, s2)
               | (Throws, s2) \<Rightarrow>
                   (case emit_error s2 of
                      (threw, s3) \<Rightarrow> if threw then (Throws, s3) else (Returns False, s3))))"

text \<open>
  \<open>updateConfig\<close>: the partial configuration is merged into the one held and stored,
  then the hotkey is registered again, or unregistered when disabled.
\<close>

definition updateConfig ::
  "HotkeyConfig_partial \<Rightarrow> register_outcome \<Rightarrow> GlobalHotkeyService
     \<Rightarrow> bool completion \<times> GlobalHotkeyService" where
  "updateConfig partial outcome s =
     (let merged =
            \<lparr> accelerator = (case new_accelerator partial of
                               None \<Rightarrow> accelerator (config s) | Some a \<Rightarrow> a),
              enabled = (case new_enabled partial of
                           None \<Rightarrow> enabled (config s) | Some e \<Rightarrow> e) \<rparr>;
          s1 = s\<lparr> config := merged, stored_hotkey := Some merged \<rparr>
      in if enabled (config s1) then register None outcome s1
         else (Returns True, unregister s1))"

text \<open>
  The service holds the one binding its configuration names and nothing else is live, or
  it holds none and nothing is live.
\<close>

definition one_binding :: "GlobalHotkeyService \<Rightarrow> bool" where
  "one_binding s \<longleftrightarrow>
     (if isRegistered s then
        accelerator (config s) \<noteq> [] \<and>
        (if isFnAccelerator (accelerator (config s)) then
           os_globalShortcuts s = [] \<and>
           (case keyspy s of
              None \<Rightarrow> False
            | Some k \<Rightarrow> keyspyListener s \<and> os_keyspies s = [(k, True)])
         else os_globalShortcuts s = [accelerator (config s)] \<and> os_keyspies s = []
              \<and> keyspy s = None)
      else os_globalShortcuts s = [] \<and> os_keyspies s = [] \<and> keyspy s = None)"

text \<open>The configuration \<open>register\<close> works with: the argument when given, else the one held.\<close>

definition effective_config :: "HotkeyConfig option \<Rightarrow> GlobalHotkeyService \<Rightarrow> HotkeyConfig" where
  "effective_config cfg s = (case cfg of None \<Rightarrow> config s | Some c \<Rightarrow> c)"

text \<open>
  Configurations used as examples: the key F13 enabled and disabled, another
  accelerator, the update of the accelerator the \<open>'update-hotkey'\<close> handler of the
  orchestrator sends, the service after \<open>register\<close> of F13 succeeded on a fresh
  service, and the service after \<open>register()\<close> of the default Fn key.
\<close>

definition f13_on :: HotkeyConfig where
  "f13_on = \<lparr> accelerator = utf16 ''F13'', enabled = True \<rparr>"

definition f13_off :: HotkeyConfig where
  "f13_off = \<lparr> accelerator = utf16 ''F13'', enabled = False \<rparr>"

definition shift_z_on :: HotkeyConfig where
  "shift_z_on = \<lparr> accelerator = utf16 ''Shift+Z'', enabled = True \<rparr>"

definition update_to_shift_z :: HotkeyConfig_partial where
  "update_to_shift_z = \<lparr> new_accelerator = Some (utf16 ''Shift+Z''), new_enabled = Some True \<rparr>"

definition f13_registered :: GlobalHotkeyService where
  "f13_registered = snd (register (Some f13_on) Registered (new_hotkey_service None))"

definition fn_registered :: GlobalHotkeyService where
  "fn_registered = snd (register None Registered (new_hotkey_service None))"

section \<open>Properties of the state machine\<close>

lemma VALID_TRANSITIONS_not_error: "VALID_TRANSITIONS s t \<noteq> Some ErrorState"
  by (cases s; cases t) simp_all

lemma apply_call_not_error:
  "currentState m \<noteq> ErrorState \<Longrightarrow> currentState (apply_call c m) \<noteq> ErrorState"
proof (cases c)
  case (Transition now trigger)
  assume "currentState m \<noteq> ErrorState"
  with Transition show ?thesis
    using VALID_TRANSITIONS_not_error [of "currentState m" trigger]
    by (auto simp: transition_def Let_def split: option.splits)
next
  case Reset
  then show ?thesis by (simp add: reset_def Let_def)
qed

lemma run_not_error:
  "currentState m \<noteq> ErrorState \<Longrightarrow> currentState (run cs m) \<noteq> ErrorState"
  by (induction cs arbitrary: m) (simp_all add: apply_call_not_error)

lemma session_inv_new: "session_inv (new_machine d)"
  by (simp add: session_inv_def new_machine_def)

lemma session_inv_apply_call: "session_inv m \<Longrightarrow> session_inv (apply_call c m)"
proof (cases c)
  case (Transition now trigger)
  assume "session_inv m"
  with Transition show ?thesis
    by (cases "currentState m"; cases trigger)
       (auto simp: session_inv_def transition_def Let_def)
next
  case Reset
  then show ?thesis by (simp add: session_inv_def reset_def Let_def)
qed

lemma session_inv_run: "session_inv m \<Longrightarrow> session_inv (run cs m)"
  by (induction cs arbitrary: m) (simp_all add: session_inv_apply_call)

text \<open>
  Outside \<open>idle\<close> the start time held is the time the recording began: a step keeps it,
  and the press that enters \<open>recording\<close> sets it.
\<close>

lemma apply_call_keeps_start:
  assumes "session_inv m"
    and "currentState m \<noteq> Idle \<longrightarrow> recordingStartTime m = b"
    and "currentState (apply_call c m) \<noteq> Idle"
  shows "recordingStartTime (apply_call c m) =
           (case c of
              Transition now trigger \<Rightarrow>
                if trigger = Hotkey_press \<and> currentState m = Idle then Some now else b
            | Reset \<Rightarrow> b)"
proof (cases c)
  case (Transition now trigger)
  with assms show ?thesis
    by (cases "currentState m"; cases trigger)
       (auto simp: session_inv_def transition_def Let_def split: if_splits)
next
  case Reset
  with assms show ?thesis by (simp add: reset_def Let_def)
qed

lemma recording_began_step:
  "recording_began b (c # cs) m =
     recording_began
       (case c of
          Transition now trigger \<Rightarrow>
            if trigger = Hotkey_press \<and> currentState m = Idle then Some now else b
        | Reset \<Rightarrow> b)
       cs (apply_call c m)"
proof (cases c)
  case (Transition now trigger)
  then show ?thesis by (cases trigger) simp_all
next
  case Reset
  then show ?thesis by simp
qed

lemma run_keeps_start:
  "session_inv m \<Longrightarrow> (currentState m \<noteq> Idle \<longrightarrow> recordingStartTime m = b) \<Longrightarrow>
   currentState (run cs m) \<noteq> Idle \<Longrightarrow>
   recordingStartTime (run cs m) = recording_began b cs m"
proof (induction cs arbitrary: b m)
  case Nil
  then show ?case by simp
next
  case (Cons c cs)
  let ?b = "case c of
              Transition now trigger \<Rightarrow>
                if trigger = Hotkey_press \<and> currentState m = Idle then Some now else b
            | Reset \<Rightarrow> b"
  have inv: "session_inv (apply_call c m)"
    using Cons.prems(1) by (rule session_inv_apply_call)
  have held: "currentState (apply_call c m) \<noteq> Idle \<longrightarrow>
                recordingStartTime (apply_call c m) = ?b"
    using apply_call_keeps_start [OF Cons.prems(1) Cons.prems(2)] by blast
  have "recordingStartTime (run cs (apply_call c m)) = recording_began ?b cs (apply_call c m)"
    using Cons.IH [OF inv held] Cons.prems(3) by simp
  then show ?case
    by (simp only: run.simps recording_began_step)
qed

text \<open>
  After any sequence of calls on a fresh machine, a machine in \<open>recording\<close> holds a
  start time.
\<close>

lemma recording_has_start_time:
  "currentState (run cs (new_machine d)) = Recording \<Longrightarrow>
   \<exists>t0. recordingStartTime (run cs (new_machine d)) = Some t0"
  using session_inv_run [OF session_inv_new, of cs d]
  by (auto simp: session_inv_def)

text \<open>
  C1. A trigger that the table does not list for the current state is rejected:
  \<open>transition\<close> returns false, the machine (its state and its start time) is the one
  before the call, and no \<open>stateChange\<close> event is emitted.
\<close>

theorem transition_rejected:
  "VALID_TRANSITIONS (currentState m) trigger = None \<Longrightarrow>
   transition now trigger m = (False, m, [])"
  by (simp add: transition_def)

theorem transition_rejected_witness:
  "VALID_TRANSITIONS (currentState (new_machine None)) Hotkey_release = None \<and>
   transition 1000 Hotkey_release (new_machine None) = (False, new_machine None, [])"
  using transition_rejected [of "new_machine None" Hotkey_release 1000]
  by (simp add: new_machine_def)

text \<open>
  C2. \<open>transition('hotkey_release')\<close> in \<open>recording\<close>, the session having started at
  \<open>t0\<close>: when the time elapsed since \<open>t0\<close> is below \<open>minRecordingDuration\<close> the call
  returns false, the machine is \<open>idle\<close> with the start time cleared, and
  \<open>stateChange('idle', 'recording')\<close> is emitted; when it is at least
  \<open>minRecordingDuration\<close> the call returns true and the machine is \<open>processing\<close>.  A
  machine in \<open>recording\<close> holds a start time (\<open>recording_has_start_time\<close>); it is a
  reading of \<open>Date.now()\<close>, which is not 0 at any time after the epoch itself (the
  source takes a start time of 0 for an absent one).  The witness runs the
  spec's example on the default of 200 ms: released 50 ms after the press, and 250 ms
  after it.
\<close>

theorem hotkey_release_min_duration:
  assumes "currentState m = Recording"
    and "recordingStartTime m = Some t0"
    and "t0 \<noteq> 0"
  shows "(now - t0 < minRecordingDuration m \<longrightarrow>
            transition now Hotkey_release m =
              (False, m\<lparr>currentState := Idle, recordingStartTime := None\<rparr>, [(Idle, Recording)]))
       \<and> (minRecordingDuration m \<le> now - t0 \<longrightarrow>
            transition now Hotkey_release m =
              (True, m\<lparr>currentState := Processing\<rparr>, [(Processing, Recording)]))"
  using assms by (simp add: transition_def getRecordingDuration_def Let_def)

theorem hotkey_release_min_duration_witness:
  "currentState (pressed_at 1000) = Recording
   \<and> recordingStartTime (pressed_at 1000) = Some 1000
   \<and> (1000::int) \<noteq> 0
   \<and> minRecordingDuration (pressed_at 1000) = 200
   \<and> fst (transition 1050 Hotkey_release (pressed_at 1000)) = False
   \<and> currentState (fst (snd (transition 1050 Hotkey_release (pressed_at 1000)))) = Idle
   \<and> recordingStartTime (fst (snd (transition 1050 Hotkey_release (pressed_at 1000)))) = None
   \<and> snd (snd (transition 1050 Hotkey_release (pressed_at 1000))) = [(Idle, Recording)]
   \<and> fst (transition 1250 Hotkey_release (pressed_at 1000)) = True
   \<and> currentState (fst (snd (transition 1250 Hotkey_release (pressed_at 1000)))) = Processing"
proof -
  have s: "currentState (pressed_at 1000) = Recording"
    by (simp add: pressed_at_def transition_def new_machine_def Let_def)
  have t: "recordingStartTime (pressed_at 1000) = Some 1000"
    by (simp add: pressed_at_def transition_def new_machine_def Let_def)
  have d: "minRecordingDuration (pressed_at 1000) = 200"
    by (simp add: pressed_at_def transition_def new_machine_def Let_def)
  have z: "(1000::int) \<noteq> 0" by simp
  show ?thesis
    using hotkey_release_min_duration [OF s t z, of 1050]
          hotkey_release_min_duration [OF s t z, of 1250] s t d
    by simp
qed

text \<open>
  C6. \<open>reset()\<close> always leaves the machine in \<open>idle\<close> with the start time cleared.  It
  emits \<open>stateChange('idle', previousState)\<close> when the previous state was not \<open>idle\<close>
  and nothing when it was; a \<open>reset()\<close> that follows a \<open>reset()\<close> emits nothing, so two
  in a row from \<open>idle\<close> emit no event at all.
\<close>

theorem reset_forces_idle:
  "currentState (fst (reset m)) = Idle
   \<and> recordingStartTime (fst (reset m)) = None
   \<and> minRecordingDuration (fst (reset m)) = minRecordingDuration m
   \<and> (currentState m \<noteq> Idle \<longrightarrow> snd (reset m) = [(Idle, currentState m)])
   \<and> (currentState m = Idle \<longrightarrow> snd (reset m) = [])
   \<and> snd (reset (fst (reset m))) = []"
  by (simp add: reset_def Let_def)

theorem reset_forces_idle_witness:
  "currentState (pressed_at 1000) \<noteq> Idle
   \<and> snd (reset (pressed_at 1000)) = [(Idle, Recording)]
   \<and> currentState (new_machine None) = Idle
   \<and> snd (reset (new_machine None)) = []
   \<and> snd (reset (fst (reset (new_machine None)))) = []"
proof -
  have s: "currentState (pressed_at 1000) = Recording"
    by (simp add: pressed_at_def transition_def new_machine_def Let_def)
  have i: "currentState (new_machine None) = Idle"
    by (simp add: new_machine_def)
  show ?thesis
    using reset_forces_idle [of "pressed_at 1000"] reset_forces_idle [of "new_machine None"] s i
    by simp
qed

text \<open>
  C10. The state \<open>error\<close> is unreachable: no entry of the transition table has it as
  its target, \<open>reset()\<close> yields \<open>idle\<close>, and after any finite sequence of
  \<open>transition()\<close> and \<open>reset()\<close> calls on a freshly constructed machine the current
  state is not \<open>error\<close>.
\<close>

theorem error_state_unreachable:
  "VALID_TRANSITIONS s t \<noteq> Some ErrorState
   \<and> currentState (fst (reset m)) = Idle
   \<and> currentState (run cs (new_machine d)) \<noteq> ErrorState"
proof -
  have "currentState (new_machine d) \<noteq> ErrorState"
    by (simp add: new_machine_def)
  then have "currentState (run cs (new_machine d)) \<noteq> ErrorState"
    by (rule run_not_error)
  moreover have "currentState (fst (reset m)) = Idle"
    by (simp add: reset_def Let_def)
  ultimately show ?thesis
    using VALID_TRANSITIONS_not_error [of s t] by simp
qed

text \<open>
  C7, as stated, fails.  The start time is cleared only when the machine returns to
  \<open>idle\<close> (the source keeps it on leaving \<open>recording\<close>, "for duration calculation until
  we're done"): pressed at 1000 and released at 1500, the machine is in \<open>processing\<close>, and
  \<open>getRecordingDuration()\<close> at 2000 returns 1000.
\<close>

theorem duration_in_processing_counterexample:
  "currentState (run [Transition 1000 Hotkey_press, Transition 1500 Hotkey_release]
                     (new_machine None)) = Processing
   \<and> getRecordingDuration 2000
       (run [Transition 1000 Hotkey_press, Transition 1500 Hotkey_release]
            (new_machine None)) = 1000"
  by (simp add: transition_def new_machine_def getRecordingDuration_def Let_def)

text \<open>
  C7, amended.  In every reachable configuration whose state is none of \<open>recording\<close>,
  \<open>processing\<close> and \<open>inserting\<close>, \<open>getRecordingDuration()\<close> returns 0.  In
  \<open>processing\<close> and in \<open>inserting\<close> the start time held is still the time at which
  the recording began, so \<open>getRecordingDuration()\<close> returns the time elapsed since then
  (for a start time that is not 0, which the source takes for an absent one).
\<close>

theorem duration_by_state:
  "(currentState (run cs (new_machine d)) \<noteq> Recording
      \<and> currentState (run cs (new_machine d)) \<noteq> Processing
      \<and> currentState (run cs (new_machine d)) \<noteq> Inserting
      \<longrightarrow> getRecordingDuration now (run cs (new_machine d)) = 0)
   \<and> (currentState (run cs (new_machine d)) = Processing
        \<or> currentState (run cs (new_machine d)) = Inserting
      \<longrightarrow> recordingStartTime (run cs (new_machine d)) = recording_began None cs (new_machine d)
          \<and> recording_began None cs (new_machine d) \<noteq> None
          \<and> (\<forall>t0. recording_began None cs (new_machine d) = Some t0 \<and> t0 \<noteq> 0
                \<longrightarrow> getRecordingDuration now (run cs (new_machine d)) = now - t0))"
proof -
  have inv: "session_inv (run cs (new_machine d))"
    by (rule session_inv_run) (rule session_inv_new)
  have idle: "currentState (run cs (new_machine d)) \<noteq> Recording
      \<and> currentState (run cs (new_machine d)) \<noteq> Processing
      \<and> currentState (run cs (new_machine d)) \<noteq> Inserting
      \<longrightarrow> getRecordingDuration now (run cs (new_machine d)) = 0"
    using inv
    by (cases "currentState (run cs (new_machine d))")
       (auto simp: session_inv_def getRecordingDuration_def)
  have busy: "recordingStartTime (run cs (new_machine d)) = recording_began None cs (new_machine d)
          \<and> recording_began None cs (new_machine d) \<noteq> None
          \<and> (\<forall>t0. recording_began None cs (new_machine d) = Some t0 \<and> t0 \<noteq> 0
                \<longrightarrow> getRecordingDuration now (run cs (new_machine d)) = now - t0)"
    if "currentState (run cs (new_machine d)) = Processing
        \<or> currentState (run cs (new_machine d)) = Inserting"
  proof -
    from that have not_idle: "currentState (run cs (new_machine d)) \<noteq> Idle"
      by auto
    have fresh: "currentState (new_machine d) \<noteq> Idle \<longrightarrow>
                   recordingStartTime (new_machine d) = None"
      by (simp add: new_machine_def)
    have held: "recordingStartTime (run cs (new_machine d)) =
                  recording_began None cs (new_machine d)"
      using run_keeps_start [OF session_inv_new fresh not_idle] .
    from inv not_idle have "recordingStartTime (run cs (new_machine d)) \<noteq> None"
      by (simp add: session_inv_def)
    with held show ?thesis
      by (auto simp: getRecordingDuration_def)
  qed
  from idle busy show ?thesis by blast
qed

theorem duration_by_state_witness:
  "currentState (run [Transition 1000 Hotkey_press, Transition 1500 Hotkey_release,
                      Transition 1600 Transcription_complete, Transition 3600 Insertion_complete]
                     (new_machine None)) = Idle
   \<and> getRecordingDuration 4000
       (run [Transition 1000 Hotkey_press, Transition 1500 Hotkey_release,
             Transition 1600 Transcription_complete, Transition 3600 Insertion_complete]
            (new_machine None)) = 0
   \<and> currentState (run [Transition 1000 Hotkey_press, Transition 1500 Hotkey_release]
                     (new_machine None)) = Processing
   \<and> recording_began None [Transition 1000 Hotkey_press, Transition 1500 Hotkey_release]
        (new_machine None) = Some 1000
   \<and> (1000::int) \<noteq> 0
   \<and> recordingStartTime (run [Transition 1000 Hotkey_press, Transition 1500 Hotkey_release]
                     (new_machine None)) = Some 1000
   \<and> getRecordingDuration 2000
       (run [Transition 1000 Hotkey_press, Transition 1500 Hotkey_release]
            (new_machine None)) = 1000
   \<and> currentState (run [Transition 1000 Hotkey_press, Transition 1500 Hotkey_release,
                         Transition 1600 Transcription_complete]
                     (new_machine None)) = Inserting
   \<and> recording_began None [Transition 1000 Hotkey_press, Transition 1500 Hotkey_release,
                            Transition 1600 Transcription_complete]
        (new_machine None) = Some 1000
   \<and> getRecordingDuration 2000
       (run [Transition 1000 Hotkey_press, Transition 1500 Hotkey_release,
             Transition 1600 Transcription_complete]
            (new_machine None)) = 1000"
proof -
  have a: "currentState (run [Transition 1000 Hotkey_press, Transition 1500 Hotkey_release,
                      Transition 1600 Transcription_complete, Transition 3600 Insertion_complete]
                     (new_machine None)) = Idle"
    by (simp add: transition_def new_machine_def getRecordingDuration_def Let_def)
  have b: "currentState (run [Transition 1000 Hotkey_press, Transition 1500 Hotkey_release]
                     (new_machine None)) = Processing"
    by (simp add: transition_def new_machine_def getRecordingDuration_def Let_def)
  have c: "currentState (run [Transition 1000 Hotkey_press, Transition 1500 Hotkey_release,
                         Transition 1600 Transcription_complete]
                     (new_machine None)) = Inserting"
    by (simp add: transition_def new_machine_def getRecordingDuration_def Let_def)
  have g: "recording_began None [Transition 1000 Hotkey_press, Transition 1500 Hotkey_release]
        (new_machine None) = Some 1000"
    by (simp add: new_machine_def)
  have h: "recording_began None [Transition 1000 Hotkey_press, Transition 1500 Hotkey_release,
                            Transition 1600 Transcription_complete]
        (new_machine None) = Some 1000"
    by (simp add: new_machine_def)
  have z: "(1000::int) \<noteq> 0" by simp
  note idle = duration_by_state
            [of "[Transition 1000 Hotkey_press, Transition 1500 Hotkey_release,
                  Transition 1600 Transcription_complete, Transition 3600 Insertion_complete]"
                None 4000]
  note processing = duration_by_state
            [of "[Transition 1000 Hotkey_press, Transition 1500 Hotkey_release]" None 2000]
  note inserting = duration_by_state
            [of "[Transition 1000 Hotkey_press, Transition 1500 Hotkey_release,
                  Transition 1600 Transcription_complete]" None 2000]
  from idle a have r0: "getRecordingDuration 4000
       (run [Transition 1000 Hotkey_press, Transition 1500 Hotkey_release,
             Transition 1600 Transcription_complete, Transition 3600 Insertion_complete]
            (new_machine None)) = 0"
    by simp
  from processing b g z
  have r1: "recordingStartTime (run [Transition 1000 Hotkey_press, Transition 1500 Hotkey_release]
                     (new_machine None)) = Some 1000
     \<and> getRecordingDuration 2000
       (run [Transition 1000 Hotkey_press, Transition 1500 Hotkey_release]
            (new_machine None)) = 1000"
    by simp
  from inserting c h z
  have r2: "getRecordingDuration 2000
       (run [Transition 1000 Hotkey_press, Transition 1500 Hotkey_release,
             Transition 1600 Transcription_complete]
            (new_machine None)) = 1000"
    by simp
  from a b c g h z r0 r1 r2 show ?thesis by simp
qed


section \<open>Properties of the orchestrator\<close>

lemma clearProcessingTimeout_fields [simp]:
  "stateMachine (clearProcessingTimeout orc) = stateMachine orc"
  "widget (clearProcessingTimeout orc) = widget orc"
  "effects (clearProcessingTimeout orc) = effects orc"
  "insertionMethod (clearProcessingTimeout orc) = insertionMethod orc"
  "mainWindow (clearProcessingTimeout orc) = mainWindow orc"
  by (simp_all add: clearProcessingTimeout_def clearTimeout_def Let_def split: option.splits)

lemma push_fields [simp]:
  "stateMachine (push st orc) = stateMachine orc"
  "widget (push st orc) = updateAllWidgets st (widget orc)"
  "effects (push st orc) = effects orc"
  "timers (push st orc) = timers orc"
  "nextTimerId (push st orc) = nextTimerId orc"
  "insertionMethod (push st orc) = insertionMethod orc"
  by (simp_all add: push_def)

lemma resetRendererRecordingState_fields [simp]:
  "stateMachine (resetRendererRecordingState orc) = stateMachine orc"
  "widget (resetRendererRecordingState orc) = widget orc"
  by (simp_all add: resetRendererRecordingState_def call_out_def)

lemma on_idle_stateMachine [simp]: "stateMachine (on_idle prev orc) = stateMachine orc"
  by (simp add: on_idle_def Let_def)

lemma on_idle_widget:
  "widget (on_idle prev orc) =
     (if prev \<noteq> Inserting \<and> prev \<noteq> Processing
      then updateAllWidgets W_idle (widget orc) else widget orc)"
  by (simp add: on_idle_def Let_def)

lemma complete_from_processing:
  "currentState (stateMachine orc) = Processing \<Longrightarrow>
   stateMachine_transition now Transcription_complete orc =
     (True, clearProcessingTimeout
              (orc\<lparr>stateMachine := (stateMachine orc)\<lparr>currentState := Inserting\<rparr>\<rparr>))"
  by (simp add: stateMachine_transition_def transition_def stateChange_listener_def Let_def)

lemma error_from_processing:
  "currentState (stateMachine orc) = Processing \<Longrightarrow>
   stateMachine_transition now Error_trigger orc =
     (True, on_idle Processing
              (orc\<lparr>stateMachine :=
                     (stateMachine orc)\<lparr>currentState := Idle, recordingStartTime := None\<rparr>\<rparr>))"
  by (simp add: stateMachine_transition_def transition_def stateChange_listener_def Let_def)

text \<open>
  \<open>stateMachine_reset\<close> runs the listener on what \<open>reset\<close> emits: its events all have
  \<open>idle\<close> as the new state, the case \<open>on_idle\<close> handles.
\<close>

lemma stateMachine_reset_listener:
  "stateMachine_reset orc =
     (case reset (stateMachine orc) of
        (m, events) \<Rightarrow> fold stateChange_listener events (orc\<lparr>stateMachine := m\<rparr>))"
  by (simp add: stateMachine_reset_def reset_def stateChange_listener_def Let_def)

lemmas scenario_defs =
  started_def ready_window_def new_orchestrator_def new_machine_def
  on_hotkey_press_def on_widget_toggle_def on_transcription_error_def
  on_transcription_complete_def deliver_def feedback_def
  stateMachine_transition_def stateMachine_reset_def transition_def reset_def
  getRecordingDuration_def stateChange_listener_def on_idle_def
  startRecordingInRenderer_def stopRecordingInRenderer_def resetRendererRecordingState_def
  isRendererReady_def call_out_def push_def updateAllWidgets_def live_widgets_def
  clearProcessingTimeout_def clearTimeout_def setTimeout_def PROCESSING_TIMEOUT_MS_def
  fire_timer_def Let_def

lemma session_processing_eq:
  "session_processing =
     \<lparr> stateMachine = \<lparr> currentState = Processing, recordingStartTime = Some 1000,
                        minRecordingDuration = 200 \<rparr>,
       widget = \<lparr> widgets = [(1, False), (3, False)], widget_currentState = W_processing,
                  sent = [(1, W_recording), (3, W_recording), (1, W_processing), (3, W_processing)] \<rparr>,
       mainWindow = Some ready_window,
       isRecording = False,
       processingTimeout = Some 0,
       feedbackTimeout = None,
       timers = [(0, 30000, Watchdog_first)],
       nextTimerId = 1,
       insertionMethod = Paste,
       effects = [CaptureActiveApp, Send ''start-recording'', Send ''stop-recording''] \<rparr>"
  by (simp add: session_processing_def scenario_defs)

lemma error_reported_eq:
  "error_reported =
     session_processing
       \<lparr> widget := \<lparr> widgets = [(1, False), (3, False)], widget_currentState = W_error,
                      sent = [(1, W_recording), (3, W_recording), (1, W_processing),
                              (3, W_processing), (1, W_error), (3, W_error)] \<rparr>,
         feedbackTimeout := Some 1,
         timers := [(0, 30000, Watchdog_first), (1, 3000, Deferred_error)],
         nextTimerId := 2 \<rparr>"
  by (simp add: error_reported_def session_processing_eq on_transcription_error_def
                setTimeout_def push_def updateAllWidgets_def live_widgets_def)

lemma late_completion_state: "currentState (stateMachine late_completion) = Inserting"
  by (simp add: late_completion_def error_reported_eq session_processing_eq scenario_defs)

lemma watchdog_fired_eq:
  "watchdog_fired =
     session_processing
       \<lparr> widget := \<lparr> widgets = [(1, False), (3, False)], widget_currentState = W_error,
                      sent = [(1, W_recording), (3, W_recording), (1, W_processing),
                              (3, W_processing), (1, W_error), (3, W_error)] \<rparr>,
         feedbackTimeout := Some 1,
         timers := [(1, 3000, Watchdog_second)],
         nextTimerId := 2 \<rparr>"
  by (simp add: watchdog_fired_def session_processing_eq fire_timer_def clearTimeout_def
                setTimeout_def push_def updateAllWidgets_def live_widgets_def)

text \<open>
  C3. A transcription completion is acted on only when the machine is in \<open>processing\<close>
  as it arrives.  In any other state the handler leaves everything as it is: no
  transition attempt, no insertion, no push to the widgets, no timer.  In \<open>processing\<close>
  it submits \<open>transcription_complete\<close>, which succeeds and moves the machine to
  \<open>inserting\<close> without a push; it calls the insertion service (paste or clipboard
  only, by the configured method); and once the result is there it pushes \<open>success\<close>
  or \<open>error\<close> to the widgets (each live window receives that one message, and it is
  the widgets' current status) and starts the feedback timer of 2000 ms.
\<close>

theorem completion_only_in_processing:
  "(currentState (stateMachine orc) \<noteq> Processing \<longrightarrow>
      on_transcription_complete others success now text orc = orc)
   \<and> (currentState (stateMachine orc) = Processing \<longrightarrow>
        fst (stateMachine_transition now Transcription_complete orc) = True
      \<and> currentState (stateMachine (deliver now text orc)) = Inserting
      \<and> effects (deliver now text orc) =
          effects orc @ [if insertionMethod orc = Clipboard_only
                         then CopyToClipboardOnly text else Insert text]
      \<and> widget (deliver now text orc) = widget orc
      \<and> on_transcription_complete others success now text orc =
          feedback success (if insertionMethod orc = Clipboard_only
                            then deliver now text orc else others (deliver now text orc)))
   \<and> widget (feedback success orc) =
        updateAllWidgets (if success then W_success else W_error) (widget orc)
   \<and> sent (widget (feedback success orc)) =
        sent (widget orc)
          @ map (\<lambda>win. (fst win, if success then W_success else W_error))
                (live_widgets (widget orc))
   \<and> widget_currentState (widget (feedback success orc)) =
        (if success then W_success else W_error)
   \<and> timers (feedback success orc) = timers orc @ [(nextTimerId orc, 2000, Feedback_insertion)]
   \<and> feedbackTimeout (feedback success orc) = Some (nextTimerId orc)"
proof -
  have dropped: "currentState (stateMachine orc) \<noteq> Processing \<longrightarrow>
      on_transcription_complete others success now text orc = orc"
    by (simp add: on_transcription_complete_def)
  have accepted: "currentState (stateMachine orc) = Processing \<longrightarrow>
        fst (stateMachine_transition now Transcription_complete orc) = True
      \<and> currentState (stateMachine (deliver now text orc)) = Inserting
      \<and> effects (deliver now text orc) =
          effects orc @ [if insertionMethod orc = Clipboard_only
                         then CopyToClipboardOnly text else Insert text]
      \<and> widget (deliver now text orc) = widget orc
      \<and> on_transcription_complete others success now text orc =
          feedback success (if insertionMethod orc = Clipboard_only
                            then deliver now text orc else others (deliver now text orc))"
    by (simp add: on_transcription_complete_def deliver_def complete_from_processing
                  call_out_def Let_def)
  have fb: "widget (feedback success orc) =
        updateAllWidgets (if success then W_success else W_error) (widget orc)
   \<and> timers (feedback success orc) = timers orc @ [(nextTimerId orc, 2000, Feedback_insertion)]
   \<and> feedbackTimeout (feedback success orc) = Some (nextTimerId orc)"
    by (simp add: feedback_def setTimeout_def Let_def)
  have messages: "sent (widget (feedback success orc)) =
        sent (widget orc)
          @ map (\<lambda>win. (fst win, if success then W_success else W_error))
                (live_widgets (widget orc))
   \<and> widget_currentState (widget (feedback success orc)) =
        (if success then W_success else W_error)"
    by (simp add: feedback_def setTimeout_def updateAllWidgets_def Let_def)
  from dropped accepted fb messages show ?thesis by blast
qed

theorem completion_only_in_processing_witness:
  "currentState (stateMachine session_processing) = Processing
   \<and> currentState (stateMachine (deliver 1800 ''hello'' session_processing)) = Inserting
   \<and> effects (deliver 1800 ''hello'' session_processing) =
       [CaptureActiveApp, Send ''start-recording'', Send ''stop-recording'', Insert ''hello'']
   \<and> on_transcription_complete id True 1800 ''hello'' session_processing =
       feedback True (id (deliver 1800 ''hello'' session_processing))
   \<and> sent (widget (on_transcription_complete id True 1800 ''hello'' session_processing)) =
       [(1, W_recording), (3, W_recording), (1, W_processing), (3, W_processing),
        (1, W_success), (3, W_success)]
   \<and> widget_currentState
        (widget (on_transcription_complete id True 1800 ''hello'' session_processing)) = W_success
   \<and> sent (widget (on_transcription_complete id False 1800 ''hello'' session_processing)) =
       [(1, W_recording), (3, W_recording), (1, W_processing), (3, W_processing),
        (1, W_error), (3, W_error)]
   \<and> currentState (stateMachine started) \<noteq> Processing
   \<and> on_transcription_complete id True 1800 ''hello'' started = started"
proof -
  have p: "currentState (stateMachine session_processing) = Processing"
    by (simp add: session_processing_eq)
  have e: "effects session_processing =
             [CaptureActiveApp, Send ''start-recording'', Send ''stop-recording'']"
    by (simp add: session_processing_eq)
  have m: "insertionMethod session_processing = Paste"
    by (simp add: session_processing_eq)
  have i: "currentState (stateMachine started) \<noteq> Processing"
    by (simp add: started_def new_orchestrator_def new_machine_def)
  have w: "widget session_processing =
      \<lparr> widgets = [(1, False), (3, False)], widget_currentState = W_processing,
        sent = [(1, W_recording), (3, W_recording), (1, W_processing), (3, W_processing)] \<rparr>"
    by (simp add: session_processing_eq)
  note accepted = completion_only_in_processing [of session_processing id True 1800 "''hello''"]
  note dropped = completion_only_in_processing [of started id True 1800 "''hello''"]
  note pushed = completion_only_in_processing
                  [of "deliver 1800 ''hello'' session_processing" id _ 1800 "''hello''"]
  from accepted p have d: "widget (deliver 1800 ''hello'' session_processing) =
                             widget session_processing"
    by blast
  have h: "on_transcription_complete id b 1800 ''hello'' session_processing =
             feedback b (deliver 1800 ''hello'' session_processing)" for b
    using completion_only_in_processing [of session_processing id b 1800 "''hello''"] p m
    by simp
  from pushed [of True]
  have f1: "sent (widget (feedback True (deliver 1800 ''hello'' session_processing))) =
        sent (widget (deliver 1800 ''hello'' session_processing))
          @ map (\<lambda>win. (fst win, if True then W_success else W_error))
                (live_widgets (widget (deliver 1800 ''hello'' session_processing)))"
    by blast
  from pushed [of False]
  have f2: "sent (widget (feedback False (deliver 1800 ''hello'' session_processing))) =
        sent (widget (deliver 1800 ''hello'' session_processing))
          @ map (\<lambda>win. (fst win, if False then W_success else W_error))
                (live_widgets (widget (deliver 1800 ''hello'' session_processing)))"
    by blast
  from pushed [of True]
  have f3: "widget_currentState
              (widget (feedback True (deliver 1800 ''hello'' session_processing))) =
            (if True then W_success else W_error)"
    by blast
  have s1: "sent (widget (on_transcription_complete id True 1800 ''hello'' session_processing)) =
       [(1, W_recording), (3, W_recording), (1, W_processing), (3, W_processing),
        (1, W_success), (3, W_success)]"
    by (simp add: h f1 d w live_widgets_def)
  have s2: "sent (widget (on_transcription_complete id False 1800 ''hello'' session_processing)) =
       [(1, W_recording), (3, W_recording), (1, W_processing), (3, W_processing),
        (1, W_error), (3, W_error)]"
    by (simp add: h f2 d w live_widgets_def)
  have c: "widget_currentState
        (widget (on_transcription_complete id True 1800 ''hello'' session_processing)) = W_success"
    by (simp add: h f3)
  from accepted dropped p e m i s1 s2 c show ?thesis by simp
qed

text \<open>
  C4. The transcription-error handler starts a timer of 3000 ms whose callback checks
  the state when it fires.  If the machine is not in \<open>processing\<close> then (a late
  completion has moved it to \<open>inserting\<close>, say), the callback changes nothing: no
  \<open>idle\<close> push, no \<open>error\<close> trigger.  If it is still in \<open>processing\<close>, the callback
  pushes \<open>idle\<close> (each live window receives one \<open>idle\<close> message) and submits
  \<open>error\<close>, which takes the machine to \<open>idle\<close>.
\<close>

theorem deferred_error_timer_guarded:
  "timers (on_transcription_error orc) = timers orc @ [(nextTimerId orc, 3000, Deferred_error)]
   \<and> feedbackTimeout (on_transcription_error orc) = Some (nextTimerId orc)
   \<and> (find (\<lambda>t. fst t = h) (timers orc) = Some (h, delay, Deferred_error) \<longrightarrow>
        fire_timer now h orc = timer_fired now Deferred_error (clearTimeout h orc))
   \<and> (currentState (stateMachine orc) \<noteq> Processing \<longrightarrow>
        timer_fired now Deferred_error orc = orc)
   \<and> (currentState (stateMachine orc) = Processing \<longrightarrow>
        timer_fired now Deferred_error orc =
          snd (stateMachine_transition now Error_trigger (push W_idle orc))
      \<and> fst (stateMachine_transition now Error_trigger (push W_idle orc)) = True
      \<and> currentState (stateMachine (timer_fired now Deferred_error orc)) = Idle
      \<and> widget (timer_fired now Deferred_error orc) = updateAllWidgets W_idle (widget orc)
      \<and> sent (widget (timer_fired now Deferred_error orc)) =
          sent (widget orc) @ map (\<lambda>win. (fst win, W_idle)) (live_widgets (widget orc)))"
proof -
  have started: "timers (on_transcription_error orc) =
        timers orc @ [(nextTimerId orc, 3000, Deferred_error)]
      \<and> feedbackTimeout (on_transcription_error orc) = Some (nextTimerId orc)"
    by (simp add: on_transcription_error_def setTimeout_def)
  have fires: "find (\<lambda>t. fst t = h) (timers orc) = Some (h, delay, Deferred_error) \<longrightarrow>
        fire_timer now h orc = timer_fired now Deferred_error (clearTimeout h orc)"
    by (simp add: fire_timer_def)
  have noop: "currentState (stateMachine orc) \<noteq> Processing \<longrightarrow>
        timer_fired now Deferred_error orc = orc"
    by simp
  have acts: "currentState (stateMachine orc) = Processing \<longrightarrow>
        timer_fired now Deferred_error orc =
          snd (stateMachine_transition now Error_trigger (push W_idle orc))
      \<and> fst (stateMachine_transition now Error_trigger (push W_idle orc)) = True
      \<and> currentState (stateMachine (timer_fired now Deferred_error orc)) = Idle
      \<and> widget (timer_fired now Deferred_error orc) = updateAllWidgets W_idle (widget orc)
      \<and> sent (widget (timer_fired now Deferred_error orc)) =
          sent (widget orc) @ map (\<lambda>win. (fst win, W_idle)) (live_widgets (widget orc))"
    by (simp add: error_from_processing on_idle_widget updateAllWidgets_def)
  from started fires noop acts show ?thesis by blast
qed

theorem deferred_error_timer_guarded_witness:
  "currentState (stateMachine late_completion) \<noteq> Processing
   \<and> timer_fired 4800 Deferred_error late_completion = late_completion
   \<and> currentState (stateMachine error_reported) = Processing
   \<and> find (\<lambda>t. fst t = 1) (timers error_reported) = Some (1, 3000, Deferred_error)
   \<and> fire_timer 4800 1 error_reported =
       timer_fired 4800 Deferred_error (clearTimeout 1 error_reported)
   \<and> currentState (stateMachine (timer_fired 4800 Deferred_error error_reported)) = Idle
   \<and> sent (widget (timer_fired 4800 Deferred_error error_reported)) =
       sent (widget error_reported) @ [(1, W_idle), (3, W_idle)]"
proof -
  have l: "currentState (stateMachine late_completion) \<noteq> Processing"
    by (simp add: late_completion_state)
  have p: "currentState (stateMachine error_reported) = Processing"
    by (simp add: error_reported_eq session_processing_eq)
  have f: "find (\<lambda>t. fst t = 1) (timers error_reported) = Some (1, 3000, Deferred_error)"
    by (simp add: error_reported_eq)
  have w: "live_widgets (widget error_reported) = [(1, False), (3, False)]"
    by (simp add: error_reported_eq live_widgets_def)
  note late = deferred_error_timer_guarded [of late_completion 1 3000 4800]
  note still = deferred_error_timer_guarded [of error_reported 1 3000 4800]
  from late l have a: "timer_fired 4800 Deferred_error late_completion = late_completion"
    by blast
  from still f have b: "fire_timer 4800 1 error_reported =
       timer_fired 4800 Deferred_error (clearTimeout 1 error_reported)"
    by blast
  from still p
  have c: "currentState (stateMachine (timer_fired 4800 Deferred_error error_reported)) = Idle"
    by blast
  from still p
  have "sent (widget (timer_fired 4800 Deferred_error error_reported)) =
          sent (widget error_reported)
            @ map (\<lambda>win. (fst win, W_idle)) (live_widgets (widget error_reported))"
    by blast
  with w have d: "sent (widget (timer_fired 4800 Deferred_error error_reported)) =
       sent (widget error_reported) @ [(1, W_idle), (3, W_idle)]"
    by simp
  from l a p f b c d show ?thesis by simp
qed

text \<open>
  C5. When the second timer of the processing watchdog fires in \<open>processing\<close>, the
  widgets get exactly one \<open>idle\<close> push: the one the callback makes, each live window
  receiving one \<open>idle\<close> message; the \<open>error\<close> trigger it submits takes the machine to
  \<open>idle\<close>, and the listener's reaction to \<open>stateChange('idle', 'processing')\<close> leaves the
  widgets alone.  The same holds for \<open>stateChange('idle', 'inserting')\<close>; a change into
  \<open>idle\<close> from any other state that is not \<open>idle\<close> pushes \<open>idle\<close>.
\<close>

theorem watchdog_single_idle_push:
  "(currentState (stateMachine orc) = Processing \<longrightarrow>
      widget (timer_fired now Watchdog_second orc) = updateAllWidgets W_idle (widget orc)
    \<and> sent (widget (timer_fired now Watchdog_second orc)) =
        sent (widget orc) @ map (\<lambda>win. (fst win, W_idle)) (live_widgets (widget orc))
    \<and> fst (stateMachine_transition now Error_trigger (push W_idle orc)) = True
    \<and> currentState (stateMachine (timer_fired now Watchdog_second orc)) = Idle)
   \<and> widget (stateChange_listener (Idle, Processing) orc) = widget orc
   \<and> widget (stateChange_listener (Idle, Inserting) orc) = widget orc
   \<and> (prev \<noteq> Idle \<and> prev \<noteq> Processing \<and> prev \<noteq> Inserting \<longrightarrow>
        widget (stateChange_listener (Idle, prev) orc) = updateAllWidgets W_idle (widget orc))"
proof -
  have fire: "currentState (stateMachine orc) = Processing \<longrightarrow>
      widget (timer_fired now Watchdog_second orc) = updateAllWidgets W_idle (widget orc)
    \<and> sent (widget (timer_fired now Watchdog_second orc)) =
        sent (widget orc) @ map (\<lambda>win. (fst win, W_idle)) (live_widgets (widget orc))
    \<and> fst (stateMachine_transition now Error_trigger (push W_idle orc)) = True
    \<and> currentState (stateMachine (timer_fired now Watchdog_second orc)) = Idle"
    by (simp add: error_from_processing on_idle_widget updateAllWidgets_def)
  have listener: "widget (stateChange_listener (Idle, p) orc) =
      (if p \<noteq> Inserting \<and> p \<noteq> Processing
       then updateAllWidgets W_idle (widget orc) else widget orc)" for p
    by (simp add: stateChange_listener_def on_idle_widget)
  have from_processing: "widget (stateChange_listener (Idle, Processing) orc) = widget orc"
    by (simp add: listener)
  have from_inserting: "widget (stateChange_listener (Idle, Inserting) orc) = widget orc"
    by (simp add: listener)
  have from_others: "prev \<noteq> Idle \<and> prev \<noteq> Processing \<and> prev \<noteq> Inserting \<longrightarrow>
        widget (stateChange_listener (Idle, prev) orc) = updateAllWidgets W_idle (widget orc)"
    by (simp add: listener)
  from fire from_processing from_inserting from_others show ?thesis by blast
qed

theorem watchdog_single_idle_push_witness:
  "currentState (stateMachine watchdog_fired) = Processing
   \<and> sent (widget (timer_fired 34500 Watchdog_second watchdog_fired)) =
       sent (widget watchdog_fired) @ [(1, W_idle), (3, W_idle)]
   \<and> currentState (stateMachine (timer_fired 34500 Watchdog_second watchdog_fired)) = Idle
   \<and> Recording \<noteq> Idle \<and> Recording \<noteq> Processing \<and> Recording \<noteq> Inserting
   \<and> widget (stateChange_listener (Idle, Recording) watchdog_fired) =
       updateAllWidgets W_idle (widget watchdog_fired)"
proof -
  have p: "currentState (stateMachine watchdog_fired) = Processing"
    by (simp add: watchdog_fired_eq session_processing_eq)
  have w: "live_widgets (widget watchdog_fired) = [(1, False), (3, False)]"
    by (simp add: watchdog_fired_eq live_widgets_def)
  note push_once = watchdog_single_idle_push [of watchdog_fired 34500 Recording]
  from push_once p
  have s: "sent (widget (timer_fired 34500 Watchdog_second watchdog_fired)) =
             sent (widget watchdog_fired)
               @ map (\<lambda>win. (fst win, W_idle)) (live_widgets (widget watchdog_fired))"
    by blast
  from push_once p
  have i: "currentState (stateMachine (timer_fired 34500 Watchdog_second watchdog_fired)) = Idle"
    by blast
  from push_once
  have r: "widget (stateChange_listener (Idle, Recording) watchdog_fired) =
             updateAllWidgets W_idle (widget watchdog_fired)"
    by blast
  from s w have "sent (widget (timer_fired 34500 Watchdog_second watchdog_fired)) =
                   sent (widget watchdog_fired) @ [(1, W_idle), (3, W_idle)]"
    by simp
  with p i r show ?thesis by simp
qed

lemma press_from_idle:
  "currentState (stateMachine orc) = Idle \<Longrightarrow>
   stateMachine_transition now Hotkey_press orc =
     (True, startRecordingInRenderer
              (push W_recording
                 (orc\<lparr>stateMachine :=
                        (stateMachine orc)\<lparr>recordingStartTime := Some now,
                                           currentState := Recording\<rparr>\<rparr>)))"
  by (simp add: stateMachine_transition_def transition_def stateChange_listener_def Let_def)

lemma press_from_idle_ready:
  assumes "currentState (stateMachine orc) = Idle" and "isRendererReady orc"
  shows "currentState (stateMachine (snd (stateMachine_transition now Hotkey_press orc))) = Recording"
    and "recordingStartTime (stateMachine (snd (stateMachine_transition now Hotkey_press orc))) =
           Some now"
    and "effects (snd (stateMachine_transition now Hotkey_press orc)) =
           effects orc @ [Send ''start-recording'']"
  using assms
  by (simp_all add: press_from_idle startRecordingInRenderer_def isRendererReady_def
                    call_out_def push_def)

lemma release_from_recording:
  assumes "currentState (stateMachine orc) = Recording"
  shows "currentState (stateMachine (snd (stateMachine_transition now Hotkey_release orc))) =
           (if getRecordingDuration now (stateMachine orc) < minRecordingDuration (stateMachine orc)
            then Idle else Processing)"
    and "effects (snd (stateMachine_transition now Hotkey_release orc)) =
           effects orc @
             (if isRendererReady orc
              then [Send (if getRecordingDuration now (stateMachine orc)
                               < minRecordingDuration (stateMachine orc)
                          then ''reset-recording-state'' else ''stop-recording'')]
              else [])"
  using assms
  by (simp_all add: stateMachine_transition_def transition_def stateChange_listener_def
                    on_idle_def resetRendererRecordingState_def stopRecordingInRenderer_def
                    isRendererReady_def call_out_def push_def setTimeout_def Let_def)

lemma reset_from_error:
  assumes "currentState (stateMachine orc) = ErrorState"
  shows "currentState (stateMachine (stateMachine_reset orc)) = Idle"
    and "effects (stateMachine_reset orc) =
           effects orc @ (if isRendererReady orc then [Send ''reset-recording-state''] else [])"
    and "isRendererReady (stateMachine_reset orc) = isRendererReady orc"
  using assms
  by (simp_all add: stateMachine_reset_def reset_def on_idle_def
                    resetRendererRecordingState_def isRendererReady_def call_out_def push_def
                    Let_def)

text \<open>
  C8, as stated, fails.  With the machine in \<open>error\<close>, the widget toggle is ignored:
  no reset, no capture, no trigger, the machine stays in \<open>error\<close>; the hardware hotkey
  resets the machine, captures the foreground application and submits \<open>hotkey_press\<close>.
  The state is the one the claim names.  No sequence of calls brings the machine of the
  repository there; the repository's test "ignores click during error state" brings the
  handler there through a mock machine, and expects the widget toggle to do nothing.
\<close>

theorem widget_toggle_in_error_counterexample:
  "currentState (stateMachine stuck_in_error) = ErrorState
   \<and> currentState (stateMachine (on_widget_toggle id 1000 stuck_in_error)) = ErrorState
   \<and> effects (on_widget_toggle id 1000 stuck_in_error) = []
   \<and> currentState (stateMachine (on_hotkey_press id 1000 stuck_in_error)) = Recording
   \<and> effects (on_hotkey_press id 1000 stuck_in_error) =
       [Send ''reset-recording-state'', CaptureActiveApp, Send ''start-recording'']"
  by (simp add: stuck_in_error_def scenario_defs)

text \<open>
  C8, amended.  The widget toggle does what the hardware hotkey press does in every
  state but \<open>error\<close>, hence in every state the machine reaches:
  \<^item> in \<open>idle\<close> both log the capture of the foreground application, then (after the
    \<open>await\<close>) submit \<open>hotkey_press\<close> and set \<open>isRecording\<close>; with a ready renderer and
    nothing interleaved the press is accepted, the machine is in \<open>recording\<close> with the
    start time set, and the renderer is told to start;
  \<^item> in \<open>recording\<close> both submit \<open>hotkey_release\<close> and clear \<open>isRecording\<close>, without a
    capture: the machine goes to \<open>processing\<close>, or to \<open>idle\<close> after too short a
    recording;
  \<^item> in \<open>processing\<close> and \<open>inserting\<close> both change nothing;
  \<^item> in \<open>error\<close> the widget toggle changes nothing, and the hardware hotkey resets the
    machine to \<open>idle\<close>, logs the capture, then submits \<open>hotkey_press\<close>.
\<close>

theorem widget_toggle_outside_error:
  "(currentState (stateMachine orc) = Idle \<longrightarrow>
      on_widget_toggle others now orc =
        (snd (stateMachine_transition now Hotkey_press
                (others (call_out CaptureActiveApp orc))))\<lparr>isRecording := True\<rparr>
    \<and> on_hotkey_press others now orc = on_widget_toggle others now orc
    \<and> effects (call_out CaptureActiveApp orc) = effects orc @ [CaptureActiveApp]
    \<and> fst (stateMachine_transition now Hotkey_press (call_out CaptureActiveApp orc)) = True
    \<and> (isRendererReady orc \<longrightarrow>
          currentState (stateMachine (on_widget_toggle id now orc)) = Recording
        \<and> recordingStartTime (stateMachine (on_widget_toggle id now orc)) = Some now
        \<and> isRecording (on_widget_toggle id now orc)
        \<and> effects (on_widget_toggle id now orc) =
            effects orc @ [CaptureActiveApp, Send ''start-recording'']))
   \<and> (currentState (stateMachine orc) = Recording \<longrightarrow>
        on_widget_toggle others now orc =
          (snd (stateMachine_transition now Hotkey_release orc))\<lparr>isRecording := False\<rparr>
      \<and> on_hotkey_press others now orc = on_widget_toggle others now orc
      \<and> currentState (stateMachine (on_widget_toggle others now orc)) =
          (if getRecordingDuration now (stateMachine orc) < minRecordingDuration (stateMachine orc)
           then Idle else Processing)
      \<and> \<not> isRecording (on_widget_toggle others now orc)
      \<and> effects (on_widget_toggle others now orc) =
          effects orc @
            (if isRendererReady orc
             then [Send (if getRecordingDuration now (stateMachine orc)
                              < minRecordingDuration (stateMachine orc)
                         then ''reset-recording-state'' else ''stop-recording'')]
             else []))
   \<and> (currentState (stateMachine orc) = Processing
        \<or> currentState (stateMachine orc) = Inserting \<longrightarrow>
        on_widget_toggle others now orc = orc \<and> on_hotkey_press others now orc = orc)
   \<and> (currentState (stateMachine orc) = ErrorState \<longrightarrow>
        on_widget_toggle others now orc = orc
      \<and> on_hotkey_press others now orc =
          (snd (stateMachine_transition now Hotkey_press
                  (others (call_out CaptureActiveApp (stateMachine_reset orc)))))
            \<lparr>isRecording := True\<rparr>
      \<and> currentState (stateMachine (stateMachine_reset orc)) = Idle
      \<and> (isRendererReady orc \<longrightarrow>
            currentState (stateMachine (on_hotkey_press id now orc)) = Recording
          \<and> effects (on_hotkey_press id now orc) =
              effects orc @ [Send ''reset-recording-state'', CaptureActiveApp,
                             Send ''start-recording'']))
   \<and> (currentState (stateMachine orc) \<noteq> ErrorState \<longrightarrow>
        on_widget_toggle others now orc = on_hotkey_press others now orc)
   \<and> (stateMachine orc = run cs (new_machine d) \<longrightarrow>
        on_widget_toggle others now orc = on_hotkey_press others now orc)"
proof -
  have idle: "on_widget_toggle others now orc =
        (snd (stateMachine_transition now Hotkey_press
                (others (call_out CaptureActiveApp orc))))\<lparr>isRecording := True\<rparr>
    \<and> on_hotkey_press others now orc = on_widget_toggle others now orc
    \<and> effects (call_out CaptureActiveApp orc) = effects orc @ [CaptureActiveApp]
    \<and> fst (stateMachine_transition now Hotkey_press (call_out CaptureActiveApp orc)) = True"
    if "currentState (stateMachine orc) = Idle"
    using that
    by (simp add: on_widget_toggle_def on_hotkey_press_def Let_def press_from_idle call_out_def)
  have idle_ready: "currentState (stateMachine (on_widget_toggle id now orc)) = Recording
        \<and> recordingStartTime (stateMachine (on_widget_toggle id now orc)) = Some now
        \<and> isRecording (on_widget_toggle id now orc)
        \<and> effects (on_widget_toggle id now orc) =
            effects orc @ [CaptureActiveApp, Send ''start-recording'']"
    if "currentState (stateMachine orc) = Idle" and "isRendererReady orc"
  proof -
    have c: "currentState (stateMachine (call_out CaptureActiveApp orc)) = Idle"
      using that(1) by (simp add: call_out_def)
    have r: "isRendererReady (call_out CaptureActiveApp orc)"
      using that(2) by (simp add: isRendererReady_def call_out_def)
    show ?thesis
      using that(1) press_from_idle_ready [OF c r, of now]
      by (simp add: on_widget_toggle_def Let_def call_out_def)
  qed
  have recording: "on_widget_toggle others now orc =
          (snd (stateMachine_transition now Hotkey_release orc))\<lparr>isRecording := False\<rparr>
      \<and> on_hotkey_press others now orc = on_widget_toggle others now orc
      \<and> currentState (stateMachine (on_widget_toggle others now orc)) =
          (if getRecordingDuration now (stateMachine orc) < minRecordingDuration (stateMachine orc)
           then Idle else Processing)
      \<and> \<not> isRecording (on_widget_toggle others now orc)
      \<and> effects (on_widget_toggle others now orc) =
          effects orc @
            (if isRendererReady orc
             then [Send (if getRecordingDuration now (stateMachine orc)
                              < minRecordingDuration (stateMachine orc)
                         then ''reset-recording-state'' else ''stop-recording'')]
             else [])"
    if "currentState (stateMachine orc) = Recording"
    using that release_from_recording [OF that, of now]
    by (simp add: on_widget_toggle_def on_hotkey_press_def)
  have busy: "on_widget_toggle others now orc = orc \<and> on_hotkey_press others now orc = orc"
    if "currentState (stateMachine orc) = Processing
        \<or> currentState (stateMachine orc) = Inserting"
    using that by (auto simp: on_widget_toggle_def on_hotkey_press_def)
  have error: "on_widget_toggle others now orc = orc
      \<and> on_hotkey_press others now orc =
          (snd (stateMachine_transition now Hotkey_press
                  (others (call_out CaptureActiveApp (stateMachine_reset orc)))))
            \<lparr>isRecording := True\<rparr>
      \<and> currentState (stateMachine (stateMachine_reset orc)) = Idle"
    if "currentState (stateMachine orc) = ErrorState"
    using that reset_from_error(1) [OF that]
    by (simp add: on_widget_toggle_def on_hotkey_press_def Let_def)
  have error_ready: "currentState (stateMachine (on_hotkey_press id now orc)) = Recording
          \<and> effects (on_hotkey_press id now orc) =
              effects orc @ [Send ''reset-recording-state'', CaptureActiveApp,
                             Send ''start-recording'']"
    if e: "currentState (stateMachine orc) = ErrorState" and ready: "isRendererReady orc"
  proof -
    let ?o1 = "call_out CaptureActiveApp (stateMachine_reset orc)"
    have c: "currentState (stateMachine ?o1) = Idle"
      using reset_from_error(1) [OF e] by (simp add: call_out_def)
    have r: "isRendererReady ?o1"
      using reset_from_error(3) [OF e] ready by (simp add: isRendererReady_def call_out_def)
    have f: "effects ?o1 = effects orc @ [Send ''reset-recording-state'', CaptureActiveApp]"
      using reset_from_error(2) [OF e] ready by (simp add: call_out_def)
    show ?thesis
      using e press_from_idle_ready [OF c r, of now] f
      by (simp add: on_hotkey_press_def Let_def)
  qed
  have same: "on_widget_toggle others now orc = on_hotkey_press others now orc"
    if "currentState (stateMachine orc) \<noteq> ErrorState"
    using that by (simp add: on_widget_toggle_def on_hotkey_press_def)
  have reachable: "on_widget_toggle others now orc = on_hotkey_press others now orc"
    if "stateMachine orc = run cs (new_machine d)"
  proof -
    have "currentState (new_machine d) \<noteq> ErrorState"
      by (simp add: new_machine_def)
    then have "currentState (run cs (new_machine d)) \<noteq> ErrorState"
      by (rule run_not_error)
    with that show ?thesis by (simp add: same)
  qed
  from idle idle_ready recording busy error error_ready same reachable
  show ?thesis by blast
qed

theorem widget_toggle_outside_error_witness:
  "currentState (stateMachine started) = Idle
   \<and> isRendererReady started
   \<and> stateMachine started = run [] (new_machine None)
   \<and> on_hotkey_press id 1000 started = on_widget_toggle id 1000 started
   \<and> currentState (stateMachine (on_widget_toggle id 1000 started)) = Recording
   \<and> recordingStartTime (stateMachine (on_widget_toggle id 1000 started)) = Some 1000
   \<and> effects (on_widget_toggle id 1000 started) = [CaptureActiveApp, Send ''start-recording'']
   \<and> currentState (stateMachine session_recording) = Recording
   \<and> on_hotkey_press id 1500 session_recording = on_widget_toggle id 1500 session_recording
   \<and> currentState (stateMachine (on_widget_toggle id 1500 session_recording)) = Processing
   \<and> effects (on_widget_toggle id 1500 session_recording) =
       [CaptureActiveApp, Send ''start-recording'', Send ''stop-recording'']
   \<and> currentState (stateMachine (on_widget_toggle id 1050 session_recording)) = Idle
   \<and> effects (on_widget_toggle id 1050 session_recording) =
       [CaptureActiveApp, Send ''start-recording'', Send ''reset-recording-state'']
   \<and> currentState (stateMachine session_processing) = Processing
   \<and> on_widget_toggle id 2000 session_processing = session_processing
   \<and> on_hotkey_press id 2000 session_processing = session_processing
   \<and> currentState (stateMachine late_completion) = Inserting
   \<and> on_widget_toggle id 2000 late_completion = late_completion
   \<and> on_hotkey_press id 2000 late_completion = late_completion
   \<and> currentState (stateMachine stuck_in_error) = ErrorState
   \<and> isRendererReady stuck_in_error
   \<and> on_widget_toggle id 1000 stuck_in_error = stuck_in_error
   \<and> currentState (stateMachine (on_hotkey_press id 1000 stuck_in_error)) = Recording
   \<and> effects (on_hotkey_press id 1000 stuck_in_error) =
       effects stuck_in_error @ [Send ''reset-recording-state'', CaptureActiveApp,
                                 Send ''start-recording'']"
proof -
  have i: "currentState (stateMachine started) = Idle"
    by (simp add: started_def new_orchestrator_def new_machine_def)
  have i_ready: "isRendererReady started"
    by (simp add: started_def isRendererReady_def ready_window_def)
  have i_run: "stateMachine started = run [] (new_machine None)"
    by (simp add: started_def new_orchestrator_def)
  have i_eff: "effects started = []"
    by (simp add: started_def new_orchestrator_def)
  have r_machine: "stateMachine session_recording =
      \<lparr> currentState = Recording, recordingStartTime = Some 1000, minRecordingDuration = 200 \<rparr>"
    by (simp add: session_recording_def scenario_defs)
  have r: "currentState (stateMachine session_recording) = Recording"
    by (simp add: r_machine)
  have r_eff: "effects session_recording = [CaptureActiveApp, Send ''start-recording'']"
    by (simp add: session_recording_def scenario_defs)
  have r_ready: "isRendererReady session_recording"
    by (simp add: session_recording_def scenario_defs)
  have r_long: "\<not> getRecordingDuration 1500 (stateMachine session_recording)
                   < minRecordingDuration (stateMachine session_recording)"
    by (simp add: r_machine getRecordingDuration_def)
  have r_short: "getRecordingDuration 1050 (stateMachine session_recording)
                   < minRecordingDuration (stateMachine session_recording)"
    by (simp add: r_machine getRecordingDuration_def)
  have p: "currentState (stateMachine session_processing) = Processing"
    by (simp add: session_processing_eq)
  have l: "currentState (stateMachine late_completion) = Inserting"
    by (rule late_completion_state)
  have e: "currentState (stateMachine stuck_in_error) = ErrorState"
    by (simp add: stuck_in_error_def)
  have e_ready: "isRendererReady stuck_in_error"
    by (simp add: stuck_in_error_def started_def isRendererReady_def ready_window_def)
  note in_idle = widget_toggle_outside_error [of started id 1000 "[]" None]
  note in_recording_long = widget_toggle_outside_error [of session_recording id 1500 "[]" None]
  note in_recording_short = widget_toggle_outside_error [of session_recording id 1050 "[]" None]
  note in_processing = widget_toggle_outside_error [of session_processing id 2000 "[]" None]
  note in_inserting = widget_toggle_outside_error [of late_completion id 2000 "[]" None]
  note in_error = widget_toggle_outside_error [of stuck_in_error id 1000 "[]" None]
  from in_idle i i_ready
  have a1: "on_hotkey_press id 1000 started = on_widget_toggle id 1000 started
     \<and> currentState (stateMachine (on_widget_toggle id 1000 started)) = Recording
     \<and> recordingStartTime (stateMachine (on_widget_toggle id 1000 started)) = Some 1000
     \<and> effects (on_widget_toggle id 1000 started) =
         effects started @ [CaptureActiveApp, Send ''start-recording'']"
    by blast
  from in_recording_long r
  have a2: "on_hotkey_press id 1500 session_recording = on_widget_toggle id 1500 session_recording
     \<and> currentState (stateMachine (on_widget_toggle id 1500 session_recording)) =
          (if getRecordingDuration 1500 (stateMachine session_recording)
                < minRecordingDuration (stateMachine session_recording)
           then Idle else Processing)
     \<and> effects (on_widget_toggle id 1500 session_recording) =
          effects session_recording @
            (if isRendererReady session_recording
             then [Send (if getRecordingDuration 1500 (stateMachine session_recording)
                              < minRecordingDuration (stateMachine session_recording)
                         then ''reset-recording-state'' else ''stop-recording'')]
             else [])"
    by blast
  from in_recording_short r
  have a3: "currentState (stateMachine (on_widget_toggle id 1050 session_recording)) =
          (if getRecordingDuration 1050 (stateMachine session_recording)
                < minRecordingDuration (stateMachine session_recording)
           then Idle else Processing)
     \<and> effects (on_widget_toggle id 1050 session_recording) =
          effects session_recording @
            (if isRendererReady session_recording
             then [Send (if getRecordingDuration 1050 (stateMachine session_recording)
                              < minRecordingDuration (stateMachine session_recording)
                         then ''reset-recording-state'' else ''stop-recording'')]
             else [])"
    by blast
  from in_processing p
  have a4: "on_widget_toggle id 2000 session_processing = session_processing
     \<and> on_hotkey_press id 2000 session_processing = session_processing"
    by blast
  from in_inserting l
  have a5: "on_widget_toggle id 2000 late_completion = late_completion
     \<and> on_hotkey_press id 2000 late_completion = late_completion"
    by blast
  from in_error e e_ready
  have a6: "on_widget_toggle id 1000 stuck_in_error = stuck_in_error
     \<and> currentState (stateMachine (on_hotkey_press id 1000 stuck_in_error)) = Recording
     \<and> effects (on_hotkey_press id 1000 stuck_in_error) =
         effects stuck_in_error @ [Send ''reset-recording-state'', CaptureActiveApp,
                                   Send ''start-recording'']"
    by blast
  from a1 i_eff have b1: "effects (on_widget_toggle id 1000 started) =
                            [CaptureActiveApp, Send ''start-recording'']"
    by simp
  from a2 r_long r_ready r_eff
  have b2: "currentState (stateMachine (on_widget_toggle id 1500 session_recording)) = Processing
     \<and> effects (on_widget_toggle id 1500 session_recording) =
         [CaptureActiveApp, Send ''start-recording'', Send ''stop-recording'']"
    by simp
  from a3 r_short r_ready r_eff
  have b3: "currentState (stateMachine (on_widget_toggle id 1050 session_recording)) = Idle
     \<and> effects (on_widget_toggle id 1050 session_recording) =
         [CaptureActiveApp, Send ''start-recording'', Send ''reset-recording-state'']"
    by simp
  from i i_ready i_run a1 b1 r a2 b2 b3 p a4 l a5 e e_ready a6
  show ?thesis by simp
qed

section \<open>Properties of the hotkey service\<close>

lemma utf16_F13: "utf16 ''F13'' = [70, 49, 51]"
  by (simp add: utf16_def)

lemma utf16_Shift_Z: "utf16 ''Shift+Z'' = [83, 104, 105, 102, 116, 43, 90]"
  by (simp add: utf16_def)

lemma utf16_fn: "utf16 ''fn'' = [102, 110]"
  by (simp add: utf16_def)

lemma utf16_Fn: "utf16 ''Fn'' = [70, 110]"
  by (simp add: utf16_def)

lemma not_fn_F13: "\<not> isFnAccelerator (utf16 ''F13'')"
  by (simp add: isFnAccelerator_def trim_def toLowerCase_def is_white_space_def
                utf16_F13 utf16_fn)

lemma not_fn_Shift_Z: "\<not> isFnAccelerator (utf16 ''Shift+Z'')"
  by (simp add: isFnAccelerator_def trim_def toLowerCase_def is_white_space_def
                utf16_Shift_Z utf16_fn)

lemma accelerators_differ:
  "utf16 ''F13'' \<noteq> utf16 ''Shift+Z''"
  "utf16 ''Shift+Z'' \<noteq> utf16 ''F13''"
  "utf16 ''F13'' \<noteq> []"
  "utf16 ''Shift+Z'' \<noteq> []"
  "utf16 ''Fn'' \<noteq> []"
  by (simp_all add: utf16_def)

text \<open>The Fn key is recognised with white space around it, a no-break space included.\<close>

lemma fn_with_white_space: "isFnAccelerator ([32] @ utf16 ''Fn'' @ [160, 65279])"
  by (simp add: isFnAccelerator_def trim_def toLowerCase_def is_white_space_def
                utf16_Fn utf16_fn)

lemma f13_registered_eq:
  "f13_registered =
     \<lparr> config = f13_on, isRegistered = True, keyspy = None, keyspyListener = False,
       fnPressed = False, error_listeners = 0, emitted = [], stored_hotkey = None,
       os_globalShortcuts = [utf16 ''F13''], os_keyspies = [], os_nextInstance = 0 \<rparr>"
  by (simp add: f13_registered_def register_def register_try_def unregister_def
                new_hotkey_service_def f13_on_def not_fn_F13 accelerators_differ Let_def)

lemma unregister_clean:
  "one_binding s \<Longrightarrow>
     os_globalShortcuts (unregister s) = [] \<and> os_keyspies (unregister s) = []
     \<and> keyspy (unregister s) = None \<and> \<not> isRegistered (unregister s)
     \<and> config (unregister s) = config s"
  by (auto simp: one_binding_def unregister_def Let_def
                 keyspy_kill_def keyspy_removeListener_def globalShortcut_unregister_def
           split: if_splits option.splits)

text \<open>
  C9.  \<open>register\<close> is to tear down the binding that is live before it registers a
  new one, so that two are never live together.  The code does not: it
  stores the new configuration before it calls \<open>unregister()\<close> (under the comment
  "Unregister existing hotkey first"), so \<open>unregister()\<close> acts on the new accelerator.
  With F13 registered, \<open>register\<close> of Shift+Z leaves the F13 binding registered with the
  operating system through the \<open>unregister()\<close> it starts with, returns true, and two
  bindings are live; the same happens through \<open>updateConfig\<close>, the path of the
  \<open>'update-hotkey'\<close> handler.
\<close>

theorem register_changed_accelerator:
  "isRegistered f13_registered
   \<and> os_globalShortcuts f13_registered = [utf16 ''F13'']
   \<and> live_bindings f13_registered = 1
   \<and> os_globalShortcuts (unregister (f13_registered\<lparr> config := shift_z_on \<rparr>)) = [utf16 ''F13'']
   \<and> fst (register (Some shift_z_on) Registered f13_registered) = Returns True
   \<and> os_globalShortcuts (snd (register (Some shift_z_on) Registered f13_registered)) =
       [utf16 ''F13'', utf16 ''Shift+Z'']
   \<and> live_bindings (snd (register (Some shift_z_on) Registered f13_registered)) = 2
   \<and> fst (updateConfig update_to_shift_z Registered f13_registered) = Returns True
   \<and> os_globalShortcuts (snd (updateConfig update_to_shift_z Registered f13_registered)) =
       [utf16 ''F13'', utf16 ''Shift+Z'']
   \<and> live_bindings (snd (updateConfig update_to_shift_z Registered f13_registered)) = 2"
  by (simp add: f13_registered_eq register_def register_try_def unregister_def updateConfig_def
                update_to_shift_z_def shift_z_on_def f13_on_def not_fn_Shift_Z
                accelerators_differ globalShortcut_unregister_def live_bindings_def Let_def)

text \<open>
  What \<open>register\<close> does besides.  A disabled configuration makes it return false before
  it reaches \<open>unregister()\<close>, so a binding that is live stays live.
\<close>

lemma register_disabled_keeps_binding:
  "fst (register (Some f13_off) Registered f13_registered) = Returns False
   \<and> os_globalShortcuts (snd (register (Some f13_off) Registered f13_registered)) =
       [utf16 ''F13'']
   \<and> live_bindings (snd (register (Some f13_off) Registered f13_registered)) = 1"
  by (simp add: f13_registered_eq register_def f13_off_def live_bindings_def Let_def)

text \<open>
  A registration that is refused or throws ends in \<open>emit('error', ...)\<close>; as long as no
  \<open>'error'\<close> listener is attached, that throws out of \<open>register\<close>, which then does not
  return false.  The binding held before has been torn down by then.
\<close>

lemma register_refused_throws:
  "fst (register (Some f13_on) Refused f13_registered) = Throws
   \<and> fst (register (Some f13_on) Threw f13_registered) = Throws
   \<and> live_bindings (snd (register (Some f13_on) Refused f13_registered)) = 0
   \<and> fst (register (Some f13_on) Refused (on_error f13_registered)) = Returns False
   \<and> emitted (snd (register (Some f13_on) Refused (on_error f13_registered))) = [Error_event]"
  by (simp add: f13_registered_eq register_def register_try_def unregister_def emit_error_def
                on_error_def f13_on_def not_fn_F13 accelerators_differ
                globalShortcut_unregister_def live_bindings_def Let_def)

text \<open>
  When the accelerator is the one the live binding was registered under (or nothing is
  registered), the tear-down does work: no binding is live after the \<open>unregister()\<close>
  \<open>register\<close> starts with, exactly one when \<open>register\<close> returns true, none when it
  returns false or throws.
\<close>

lemma register_same_accelerator:
  assumes "enabled (effective_config cfg s)"
    and "one_binding s"
    and "isRegistered s \<longrightarrow> accelerator (effective_config cfg s) = accelerator (config s)"
  shows "live_bindings (unregister (s\<lparr> config := effective_config cfg s \<rparr>)) = 0"
    and "live_bindings (snd (register cfg outcome s)) =
           (if fst (register cfg outcome s) = Returns True then 1 else 0)"
proof -
  let ?s0 = "s\<lparr> config := effective_config cfg s \<rparr>"
  have s0: "(case cfg of None \<Rightarrow> s | Some c \<Rightarrow> s\<lparr> config := c \<rparr>) = ?s0"
    by (cases cfg) (simp_all add: effective_config_def)
  from assms(2,3) have ob0: "one_binding ?s0"
    by (auto simp: one_binding_def split: if_splits option.splits)
  note clean = unregister_clean [OF ob0]
  show "live_bindings (unregister ?s0) = 0"
    using clean by (simp add: live_bindings_def)
  have reg: "register cfg outcome s =
      (case register_try outcome (unregister ?s0) of
         (Returns b, s2) \<Rightarrow> (Returns b, s2)
       | (Throws, s2) \<Rightarrow>
           (case emit_error s2 of
              (threw, s3) \<Rightarrow> if threw then (Throws, s3) else (Returns False, s3)))"
    using assms(1) by (simp add: register_def s0 Let_def)
  show "live_bindings (snd (register cfg outcome s)) =
           (if fst (register cfg outcome s) = Returns True then 1 else 0)"
    using clean reg
    by (cases outcome)
       (auto simp: register_try_def registerFnHotkey_def emit_error_def
                   live_bindings_def Let_def)
qed

lemma is_fn_Fn: "isFnAccelerator (utf16 ''Fn'')"
  by (simp add: isFnAccelerator_def trim_def toLowerCase_def is_white_space_def
                utf16_Fn utf16_fn)

lemma fn_registered_eq:
  "fn_registered =
     \<lparr> config = DEFAULT_HOTKEY, isRegistered = True, keyspy = Some 0, keyspyListener = True,
       fnPressed = False, error_listeners = 0, emitted = [], stored_hotkey = None,
       os_globalShortcuts = [], os_keyspies = [(0, True)], os_nextInstance = 1 \<rparr>"
  by (simp add: fn_registered_def register_def register_try_def registerFnHotkey_def
                unregister_def new_hotkey_service_def DEFAULT_HOTKEY_def is_fn_Fn Let_def)

lemma fn_registered_again:
  "one_binding fn_registered
   \<and> live_bindings fn_registered = 1
   \<and> fst (register None Registered fn_registered) = Returns True
   \<and> os_keyspies (snd (register None Registered fn_registered)) = [(1, True)]
   \<and> live_bindings (snd (register None Registered fn_registered)) = 1"
  by (simp add: fn_registered_eq one_binding_def live_bindings_def register_def
                register_try_def registerFnHotkey_def unregister_def keyspy_kill_def
                keyspy_removeListener_def DEFAULT_HOTKEY_def is_fn_Fn accelerators_differ
                Let_def)

end
